theory Spec2Isabelle
  imports Complex_Main "HOL-Library.AList"
begin

section \<open>San Andreas, The Definitive Edition Demake: the world-state engine\<close>

text \<open>
  A shallow embedding of \<^verbatim>\<open>SanAndreasTheDefinitiveEditionDemake.py\<close>.

  Python objects are mutable, shared and compared by identity (no class of the program
  defines \<^verbatim>\<open>__eq__\<close>), so the model keeps them in an explicit store: a reference is a
  natural number, the store maps references to objects, and every list or dictionary of
  the program holds references. \<^verbatim>\<open>a == b\<close> and \<^verbatim>\<open>a != b\<close> on objects are equality and
  inequality of references.

  A Python object is a bag of attributes plus its class. One record holds the union of
  the attributes of all classes of the program; the class tag decides \<^verbatim>\<open>isinstance\<close>.
  An attribute a class does not have keeps an unused default.

  Integers are Python's unbounded integers (\<open>int\<close>). Stamina is the one number that
  leaves the integers (driving subtracts \<^verbatim>\<open>0.5\<close>); halves are exact in binary floating
  point, so it is a rational number here.

  Printing is not modelled, except for the report of \<^verbatim>\<open>load_game\<close>.
\<close>

subsection \<open>Constants and utility functions\<close>

definition MAP_WIDTH :: int where "MAP_WIDTH = 80"
definition MAP_HEIGHT :: int where "MAP_HEIGHT = 25"
definition VISION_RADIUS :: int where "VISION_RADIUS = 8"
definition MAX_WANTED_LEVEL :: int where "MAX_WANTED_LEVEL = 5"

text \<open>The colour escapes of colorama (ANSI sequences) that the glyph constants use.\<close>

definition esc :: "string \<Rightarrow> string" where
  "esc code = CHR 0x1B # CHR ''['' # code @ ''m''"

definition RESET_ALL :: string where "RESET_ALL = esc ''0''"
definition PLAYER_CHAR :: string where "PLAYER_CHAR = esc ''36'' @ ''C'' @ RESET_ALL"
definition NPC_CHAR :: string where "NPC_CHAR = esc ''34'' @ ''N'' @ RESET_ALL"
definition BIG_SMOKE_CHARS :: "string list" where
  "BIG_SMOKE_CHARS = [esc ''35'' @ ''B'' @ RESET_ALL, esc ''35'' @ ''S'' @ RESET_ALL]"
definition ITEM_CHAR :: string where "ITEM_CHAR = esc ''33'' @ ''I'' @ RESET_ALL"
definition SHOP_CHAR :: string where "SHOP_CHAR = esc ''32'' @ ''S'' @ RESET_ALL"
definition ENEMY_CHAR :: string where "ENEMY_CHAR = esc ''31'' @ ''E'' @ RESET_ALL"
definition VEHICLE_CHAR :: string where "VEHICLE_CHAR = esc ''37'' @ ''V'' @ RESET_ALL"
definition POLICE_CHAR :: string where "POLICE_CHAR = esc ''34'' @ ''P'' @ RESET_ALL"

text \<open>\<^verbatim>\<open>clamp(value, min_value, max_value)\<close>, with the source's argument order.\<close>

definition clamp :: "'a::linorder \<Rightarrow> 'a \<Rightarrow> 'a \<Rightarrow> 'a" where
  "clamp v min_value max_value = max min_value (min v max_value)"

subsection \<open>Classes, objects and the store\<close>

datatype cls =
  GameObject | Character | Player | NPC | BigSmoke | Enemy
  | Item | Weapon | HealthPack | MoneyBundle | Food | Drink | Shop | Vehicle

text \<open>The method resolution order of each class: the class itself and its bases.\<close>

fun mro :: "cls \<Rightarrow> cls list" where
  "mro GameObject = [GameObject]"
| "mro Character = [Character, GameObject]"
| "mro Player = [Player, Character, GameObject]"
| "mro NPC = [NPC, Character, GameObject]"
| "mro BigSmoke = [BigSmoke, NPC, Character, GameObject]"
| "mro Enemy = [Enemy, Character, GameObject]"
| "mro Item = [Item, GameObject]"
| "mro Weapon = [Weapon, Item, GameObject]"
| "mro HealthPack = [HealthPack, Item, GameObject]"
| "mro MoneyBundle = [MoneyBundle, Item, GameObject]"
| "mro Food = [Food, Item, GameObject]"
| "mro Drink = [Drink, Item, GameObject]"
| "mro Shop = [Shop, GameObject]"
| "mro Vehicle = [Vehicle, GameObject]"

fun class_name :: "cls \<Rightarrow> string" where
  "class_name GameObject = ''GameObject''"
| "class_name Character = ''Character''"
| "class_name Player = ''Player''"
| "class_name NPC = ''NPC''"
| "class_name BigSmoke = ''BigSmoke''"
| "class_name Enemy = ''Enemy''"
| "class_name Item = ''Item''"
| "class_name Weapon = ''Weapon''"
| "class_name HealthPack = ''HealthPack''"
| "class_name MoneyBundle = ''MoneyBundle''"
| "class_name Food = ''Food''"
| "class_name Drink = ''Drink''"
| "class_name Shop = ''Shop''"
| "class_name Vehicle = ''Vehicle''"

type_synonym ref = nat

text \<open>
  The three objective closures of \<^verbatim>\<open>_initialize_missions\<close> all have the shape
  \<^verbatim>\<open>any(isinstance(item, C) and item.name == n for item in player.inventory)\<close>; an
  objective is that class and that name.
\<close>

datatype objective = HasItem cls string

text \<open>
  A \<^verbatim>\<open>Mission\<close> is never mutated after its construction, so it is a value. The program
  compares missions by identity; no two missions of the program agree on all fields, so
  equality of values decides the same.
\<close>

record mission =
  mission_name :: string
  mission_description :: string
  objective_func :: objective
  reward_money :: int
  reward_item :: "ref option"
  prerequisite_missions :: "string list"

record obj =
  cls_of :: cls
  \<comment> \<open>GameObject\<close>
  obj_x :: int
  obj_y :: int
  obj_char :: string
  obj_name :: string
  \<comment> \<open>Character (health and max health also Vehicle)\<close>
  health :: int
  max_health :: int
  inventory :: "ref list"
  money :: int
  stamina :: rat
  max_stamina :: rat
  current_weapon :: "ref option"
  \<comment> \<open>Player\<close>
  discovered_map :: "bool list list"
  missions_completed :: "string list"
  current_mission :: "mission option"
  wanted_level :: int
  hunger :: int
  thirst :: int
  driving_skill :: int
  weapon_skill :: int
  current_vehicle :: "ref option"
  \<comment> \<open>NPC\<close>
  dialogue :: string
  mission_offered :: "mission option"
  mission_completed :: bool
  \<comment> \<open>BigSmoke\<close>
  char2_x :: int
  char2_y :: int
  \<comment> \<open>Enemy (damage also Weapon)\<close>
  damage :: int
  faction :: string
  \<comment> \<open>Item and its subclasses\<close>
  description :: string
  item_value :: int
  heal_amount :: int
  amount :: int
  hunger_restore :: int
  thirst_restore :: int
  \<comment> \<open>Shop: its \<^verbatim>\<open>inventory\<close> of (item, price) pairs\<close>
  shop_inventory :: "(ref \<times> int) list"
  shop_type :: string
  \<comment> \<open>Vehicle\<close>
  speed :: int
  occupant :: "ref option"

definition isinstance :: "obj \<Rightarrow> cls \<Rightarrow> bool" where
  "isinstance ob c = (c \<in> set (mro (cls_of ob)))"

text \<open>An object with every attribute at an unused default; the constructors fill it in.\<close>

definition blank :: "cls \<Rightarrow> obj" where
  "blank c = \<lparr> cls_of = c, obj_x = 0, obj_y = 0, obj_char = [], obj_name = [],
     health = 0, max_health = 0, inventory = [], money = 0, stamina = 0, max_stamina = 0,
     current_weapon = None, discovered_map = [], missions_completed = [],
     current_mission = None, wanted_level = 0, hunger = 0, thirst = 0, driving_skill = 0,
     weapon_skill = 0, current_vehicle = None, dialogue = [], mission_offered = None,
     mission_completed = False, char2_x = 0, char2_y = 0, damage = 0, faction = [],
     description = [], item_value = 0, heal_amount = 0, amount = 0, hunger_restore = 0,
     thirst_restore = 0, shop_inventory = [], shop_type = [], speed = 0, occupant = None \<rparr>"

subsection \<open>The world: the \<^verbatim>\<open>Game\<close> singleton and its environment\<close>

datatype exn =
  EOFError | AttributeError | IndexError | KeyError | TypeError | ValueError
  | FileNotFoundError | JSONDecodeError | OSError

text \<open>Raising and sequencing: \<open>Inl\<close> is a raised exception.\<close>

definition and_then :: "exn + 'a \<Rightarrow> ('a \<Rightarrow> exn + 'b) \<Rightarrow> exn + 'b" where
  "and_then m f = (case m of Inl e \<Rightarrow> Inl e | Inr v \<Rightarrow> f v)"

datatype json =
  JNull | JBool bool | JNum rat | JStr string | JList "json list" | JObj "(string \<times> json) list"

text \<open>What \<^verbatim>\<open>open(filename, 'r')\<close> followed by \<^verbatim>\<open>json.load\<close> can meet.\<close>

datatype savefile =
  Missing               \<comment> \<open>no such file: \<^verbatim>\<open>FileNotFoundError\<close>\<close>
  | Unreadable          \<comment> \<open>the file cannot be opened or read: another \<^verbatim>\<open>OSError\<close>\<close>
  | Malformed           \<comment> \<open>the content is not JSON: \<^verbatim>\<open>json.JSONDecodeError\<close>\<close>
  | Document json       \<comment> \<open>the content parses to this value\<close>

text \<open>
  The fields of \<^verbatim>\<open>Game\<close> (with those of its \<^verbatim>\<open>GameMap\<close>), the store, and the environment
  of the process: the lines still to be read from standard input, the random source (a
  stream, \<^verbatim>\<open>randbelow n\<close> takes its head modulo \<open>n\<close>), the save file and whether it can
  be written.
\<close>

record game =
  heap :: "ref \<Rightarrow> obj"
  next_ref :: ref
  objects :: "ref list"
  map_width :: int
  map_height :: int
  player :: ref
  running :: bool
  game_time :: int
  npcs :: "(string \<times> ref) list"
  items :: "(string \<times> ref) list"
  shops :: "(string \<times> ref) list"
  enemies :: "(string \<times> ref) list"
  vehicles :: "(string \<times> ref) list"
  missions :: "(string \<times> mission) list"
  stdin :: "string list"
  random :: "nat \<Rightarrow> nat"
  disk :: savefile
  disk_writable :: bool

definition upd :: "ref \<Rightarrow> (obj \<Rightarrow> obj) \<Rightarrow> game \<Rightarrow> game" where
  "upd r f g = g\<lparr>heap := (heap g)(r := f (heap g r))\<rparr>"

definition new :: "obj \<Rightarrow> game \<Rightarrow> ref \<times> game" where
  "new ob g = (next_ref g, g\<lparr>heap := (heap g)(next_ref g := ob), next_ref := Suc (next_ref g)\<rparr>)"

text \<open>\<^verbatim>\<open>input()\<close>: the next line, or \<^verbatim>\<open>EOFError\<close> at the end of the input.\<close>

definition input :: "game \<Rightarrow> exn + (string \<times> game)" where
  "input g = (case stdin g of [] \<Rightarrow> Inl EOFError | l # ls \<Rightarrow> Inr (l, g\<lparr>stdin := ls\<rparr>))"

definition randbelow :: "nat \<Rightarrow> game \<Rightarrow> nat \<times> game" where
  "randbelow n g = (random g 0 mod n, g\<lparr>random := (\<lambda>k. random g (Suc k))\<rparr>)"

text \<open>\<^verbatim>\<open>str.lower\<close> on ASCII letters.\<close>

definition lower_char :: "char \<Rightarrow> char" where
  "lower_char c = (let n = (of_char c :: nat) in if 65 \<le> n \<and> n \<le> 90 then char_of (n + 32) else c)"

definition lower :: "string \<Rightarrow> string" where
  "lower s = map lower_char s"

text \<open>
  \<^verbatim>\<open>int(s)\<close> on a line of input, as Python reads a decimal literal: surrounding
  whitespace is dropped, a sign may come first, then digits, where single underscores may
  stand between digits. \<open>None\<close> is \<^verbatim>\<open>ValueError\<close>. A character of the model is a byte
  and a line of input is ASCII text, so digits and whitespace beyond ASCII do not occur.
\<close>

definition digit_val :: "char \<Rightarrow> nat option" where
  "digit_val c = (let n = (of_char c :: nat) in if 48 \<le> n \<and> n \<le> 57 then Some (n - 48) else None)"

fun digits_val :: "nat \<Rightarrow> string \<Rightarrow> nat option" where
  "digits_val acc [] = Some acc"
| "digits_val acc (c # cs) =
     (case digit_val c of None \<Rightarrow> None | Some d \<Rightarrow> digits_val (10 * acc + d) cs)"

definition is_space :: "char \<Rightarrow> bool" where
  "is_space c = ((of_char c :: nat) \<in> {9, 10, 11, 12, 13, 28, 29, 30, 31, 32})"

definition strip :: "string \<Rightarrow> string" where
  "strip s = rev (dropWhile is_space (rev (dropWhile is_space s)))"

text \<open>No underscore first or last, and no two in a row: each one stands between digits.\<close>

fun single_underscores :: "string \<Rightarrow> bool" where
  "single_underscores (a # b # cs) =
     (\<not> (a = CHR ''_'' \<and> b = CHR ''_'') \<and> single_underscores (b # cs))"
| "single_underscores cs = True"

definition unsigned :: "string \<Rightarrow> nat option" where
  "unsigned s =
     (if s = [] \<or> hd s = CHR ''_'' \<or> last s = CHR ''_'' \<or> \<not> single_underscores s then None
      else digits_val 0 (filter (\<lambda>c. c \<noteq> CHR ''_'') s))"

definition py_int :: "string \<Rightarrow> int option" where
  "py_int s =
     (case strip s of
        [] \<Rightarrow> None
      | c # cs \<Rightarrow>
          if c = CHR ''-'' then map_option (\<lambda>n. - int n) (unsigned cs)
          else if c = CHR ''+'' then map_option int (unsigned cs)
          else map_option int (unsigned (c # cs)))"

text \<open>\<^verbatim>\<open>str(n)\<close> for a natural number.\<close>

fun str_nat_aux :: "nat \<Rightarrow> nat \<Rightarrow> string \<Rightarrow> string" where
  "str_nat_aux 0 n acc = acc"
| "str_nat_aux (Suc fuel) n acc =
     (let acc' = char_of (48 + n mod 10) # acc
      in if n < 10 then acc' else str_nat_aux fuel (n div 10) acc')"

definition str_nat :: "nat \<Rightarrow> string" where
  "str_nat n = str_nat_aux (Suc n) n []"

subsection \<open>GameObject and Character\<close>

definition GameObject_init :: "cls \<Rightarrow> int \<Rightarrow> int \<Rightarrow> string \<Rightarrow> string \<Rightarrow> obj" where
  "GameObject_init c x y ch nm = (blank c)\<lparr>obj_x := x, obj_y := y, obj_char := ch, obj_name := nm\<rparr>"

text \<open>\<^verbatim>\<open>Character.__init__(self, x, y, char, name, health, money=0, stamina=100)\<close>.\<close>

definition Character_init ::
  "cls \<Rightarrow> int \<Rightarrow> int \<Rightarrow> string \<Rightarrow> string \<Rightarrow> int \<Rightarrow> int \<Rightarrow> rat \<Rightarrow> obj" where
  "Character_init c x y ch nm h m st =
     (GameObject_init c x y ch nm)\<lparr>health := h, max_health := h, inventory := [], money := m,
        stamina := st, max_stamina := st, current_weapon := None\<rparr>"

text \<open>
  \<^verbatim>\<open>Character.take_damage\<close> on the object itself: the new object and the returned
  boolean.
\<close>

definition take_damage :: "int \<Rightarrow> obj \<Rightarrow> obj \<times> bool" where
  "take_damage amt ob =
     (let h = health ob - amt;
          h' = (if h < 0 then 0 else h)
      in (ob\<lparr>health := h'\<rparr>, h' = 0))"

definition Character_take_damage :: "ref \<Rightarrow> int \<Rightarrow> game \<Rightarrow> bool \<times> game" where
  "Character_take_damage c amt g =
     (snd (take_damage amt (heap g c)), upd c (\<lambda>ob. fst (take_damage amt ob)) g)"

definition heal :: "ref \<Rightarrow> int \<Rightarrow> game \<Rightarrow> game" where
  "heal c amt g = upd c (\<lambda>ob. ob\<lparr>health := clamp (health ob + amt) 0 (max_health ob)\<rparr>) g"

definition add_item :: "ref \<Rightarrow> ref \<Rightarrow> game \<Rightarrow> game" where
  "add_item c it g = upd c (\<lambda>ob. ob\<lparr>inventory := inventory ob @ [it]\<rparr>) g"

definition remove_item :: "ref \<Rightarrow> ref \<Rightarrow> game \<Rightarrow> bool \<times> game" where
  "remove_item c it g =
     (if it \<in> set (inventory (heap g c))
      then (True, upd c (\<lambda>ob. ob\<lparr>inventory := remove1 it (inventory ob),
                 current_weapon := (if current_weapon ob = Some it then None else current_weapon ob)\<rparr>) g)
      else (False, g))"

definition equip_weapon :: "ref \<Rightarrow> ref \<Rightarrow> game \<Rightarrow> game" where
  "equip_weapon c w g =
     (if w \<in> set (inventory (heap g c)) \<and> isinstance (heap g w) Weapon
      then upd c (\<lambda>ob. ob\<lparr>current_weapon := Some w\<rparr>) g
      else g)"

text \<open>\<^verbatim>\<open>Character.f(target)\<close>, the attack: fists deal 5, a current weapon its damage.\<close>

definition attack_damage :: "game \<Rightarrow> ref \<Rightarrow> int" where
  "attack_damage g c =
     (case current_weapon (heap g c) of None \<Rightarrow> 5 | Some w \<Rightarrow> damage (heap g w))"

definition Character_f :: "ref \<Rightarrow> ref \<Rightarrow> game \<Rightarrow> bool \<times> game" where
  "Character_f c target g = Character_take_damage target (attack_damage g c) g"

subsection \<open>Player\<close>

text \<open>\<^verbatim>\<open>Player.__init__(self, x, y)\<close>.\<close>

definition Player_init :: "int \<Rightarrow> int \<Rightarrow> obj" where
  "Player_init x y =
     (Character_init Player x y PLAYER_CHAR ''CJ'' 100 500 100)\<lparr>
        discovered_map := replicate (nat MAP_HEIGHT) (replicate (nat MAP_WIDTH) False),
        missions_completed := [], current_mission := None, wanted_level := 0,
        hunger := 100, thirst := 100, driving_skill := 1, weapon_skill := 1,
        current_vehicle := None\<rparr>"

text \<open>A \<^verbatim>\<open>for\<close> loop whose body may raise.\<close>

fun for_each :: "'a list \<Rightarrow> ('a \<Rightarrow> 's \<Rightarrow> exn + 's) \<Rightarrow> 's \<Rightarrow> exn + 's" where
  "for_each [] body s = Inr s"
| "for_each (a # as) body s =
     (case body a s of Inl e \<Rightarrow> Inl e | Inr s' \<Rightarrow> for_each as body s')"

text \<open>
  \<^verbatim>\<open>self.discovered_map[ny][nx] = True\<close>; both indices are non-negative where it is
  called, and an index beyond the list raises.
\<close>

definition mark :: "int \<Rightarrow> int \<Rightarrow> bool list list \<Rightarrow> exn + bool list list" where
  "mark nx ny dm =
     (if nat ny < length dm \<and> nat nx < length (dm ! nat ny)
      then Inr (dm[nat ny := (dm ! nat ny)[nat nx := True]])
      else Inl IndexError)"

definition in_bounds :: "int \<Rightarrow> int \<Rightarrow> bool" where
  "in_bounds nx ny = (0 \<le> nx \<and> nx < MAP_WIDTH \<and> 0 \<le> ny \<and> ny < MAP_HEIGHT)"

definition discover_cell :: "obj \<Rightarrow> int \<Rightarrow> int \<Rightarrow> bool list list \<Rightarrow> exn + bool list list" where
  "discover_cell ob dy dx dm =
     (let nx = obj_x ob + dx; ny = obj_y ob + dy
      in if in_bounds nx ny
         then (if dx * dx + dy * dy \<le> VISION_RADIUS * VISION_RADIUS then mark nx ny dm else Inr dm)
         else Inr dm)"

definition discover_map :: "obj \<Rightarrow> exn + obj" where
  "discover_map ob =
     and_then
       (for_each [- VISION_RADIUS .. VISION_RADIUS]
          (\<lambda>dy. for_each [- VISION_RADIUS .. VISION_RADIUS] (\<lambda>dx. discover_cell ob dy dx))
          (discovered_map ob))
       (\<lambda>dm. Inr (ob\<lparr>discovered_map := dm\<rparr>))"

definition discover_area :: "ref \<Rightarrow> game \<Rightarrow> exn + game" where
  "discover_area p g =
     and_then (discover_map (heap g p)) (\<lambda>ob. Inr (g\<lparr>heap := (heap g)(p := ob)\<rparr>))"

text \<open>
  The test inside the collision loop of \<^verbatim>\<open>Player.move\<close> and \<^verbatim>\<open>Vehicle.move\<close>: Big
  Smoke blocks his own cell and the one to its right, every other object its own cell.
\<close>

definition in_the_way :: "obj \<Rightarrow> int \<Rightarrow> int \<Rightarrow> bool" where
  "in_the_way ob nx ny =
     (if isinstance ob BigSmoke
      then (nx = obj_x ob \<and> ny = obj_y ob) \<or> (nx = obj_x ob + 1 \<and> ny = obj_y ob)
      else nx = obj_x ob \<and> ny = obj_y ob)"

text \<open>\<^verbatim>\<open>Vehicle.move(dx, dy, game_map, player)\<close>.\<close>

definition Vehicle_move :: "ref \<Rightarrow> int \<Rightarrow> int \<Rightarrow> ref \<Rightarrow> game \<Rightarrow> bool \<times> game" where
  "Vehicle_move v dx dy p g =
     (let nx = obj_x (heap g v) + dx; ny = obj_y (heap g v) + dy
      in if \<not> in_bounds nx ny then (False, g)
         else if list_ex (\<lambda>r. r \<noteq> v \<and> Some r \<noteq> occupant (heap g v) \<and> in_the_way (heap g r) nx ny)
                   (objects g)
         then (False, g)
         else
           (let g1 = upd v (\<lambda>ob. ob\<lparr>obj_x := nx, obj_y := ny\<rparr>) g
            in (True,
                case occupant (heap g1 v) of
                  None \<Rightarrow> g1
                | Some c \<Rightarrow>
                    upd p (\<lambda>ob. ob\<lparr>stamina := clamp (stamina ob - 1 / 2) 0 (max_stamina ob)\<rparr>)
                      (upd c (\<lambda>ob. ob\<lparr>obj_x := nx, obj_y := ny\<rparr>) g1))))"

text \<open>\<^verbatim>\<open>Player.move(dx, dy, game_map)\<close>.\<close>

definition Player_move :: "ref \<Rightarrow> int \<Rightarrow> int \<Rightarrow> game \<Rightarrow> bool \<times> game" where
  "Player_move p dx dy g =
     (let new_x = obj_x (heap g p) + dx; new_y = obj_y (heap g p) + dy
      in case current_vehicle (heap g p) of
           Some v \<Rightarrow> Vehicle_move v dx dy p g
         | None \<Rightarrow>
             if \<not> in_bounds new_x new_y then (False, g)
             else if list_ex (\<lambda>r. r \<noteq> p \<and> in_the_way (heap g r) new_x new_y) (objects g)
             then (False, g)
             else (True, upd p (\<lambda>ob. ob\<lparr>obj_x := new_x, obj_y := new_y,
                            stamina := clamp (stamina ob - 1) 0 (max_stamina ob)\<rparr>) g))"

definition update_needs :: "ref \<Rightarrow> game \<Rightarrow> game" where
  "update_needs p g =
     (let g1 = upd p (\<lambda>ob. ob\<lparr>hunger := clamp (hunger ob - 1) 0 100\<rparr>) g;
          g2 = upd p (\<lambda>ob. ob\<lparr>thirst := clamp (thirst ob - 1) 0 100\<rparr>) g1
      in if hunger (heap g2 p) \<le> 0 \<or> thirst (heap g2 p) \<le> 0
         then snd (Character_take_damage p 2 g2)
         else g2)"

definition add_wanted_level :: "ref \<Rightarrow> int \<Rightarrow> game \<Rightarrow> game" where
  "add_wanted_level p amt g =
     upd p (\<lambda>ob. ob\<lparr>wanted_level := clamp (wanted_level ob + amt) 0 MAX_WANTED_LEVEL\<rparr>) g"

definition reduce_wanted_level :: "ref \<Rightarrow> int \<Rightarrow> game \<Rightarrow> game" where
  "reduce_wanted_level p amt g =
     upd p (\<lambda>ob. ob\<lparr>wanted_level := clamp (wanted_level ob - amt) 0 MAX_WANTED_LEVEL\<rparr>) g"

subsection \<open>Vehicle\<close>

text \<open>\<^verbatim>\<open>Vehicle.__init__(self, x, y, name, health, speed, char=VEHICLE_CHAR)\<close>.\<close>

definition Vehicle_init :: "int \<Rightarrow> int \<Rightarrow> string \<Rightarrow> int \<Rightarrow> int \<Rightarrow> string \<Rightarrow> obj" where
  "Vehicle_init x y nm h sp ch =
     (GameObject_init Vehicle x y ch nm)\<lparr>health := h, max_health := h, speed := sp,
        occupant := None\<rparr>"

definition Vehicle_enter :: "ref \<Rightarrow> ref \<Rightarrow> game \<Rightarrow> bool \<times> game" where
  "Vehicle_enter v c g =
     (if occupant (heap g v) = None
      then (True, upd c (\<lambda>ob. ob\<lparr>current_vehicle := Some v\<rparr>)
                    (upd v (\<lambda>ob. ob\<lparr>occupant := Some c\<rparr>) g))
      else (False, g))"

text \<open>
  \<^verbatim>\<open>Vehicle.exit(character)\<close>: the link is cleared and the character is put at
  \<^verbatim>\<open>(self.x + 1, self.y)\<close>, whatever is there.
\<close>

definition Vehicle_exit :: "ref \<Rightarrow> ref \<Rightarrow> game \<Rightarrow> bool \<times> game" where
  "Vehicle_exit v c g =
     (if occupant (heap g v) = Some c
      then
        (let g1 = upd v (\<lambda>ob. ob\<lparr>occupant := None\<rparr>) g;
             g2 = upd c (\<lambda>ob. ob\<lparr>current_vehicle := None\<rparr>) g1;
             g3 = upd c (\<lambda>ob. ob\<lparr>obj_x := obj_x (heap g2 v) + 1\<rparr>) g2;
             g4 = upd c (\<lambda>ob. ob\<lparr>obj_y := obj_y (heap g3 v)\<rparr>) g3
         in (True, g4))
      else (False, g))"

subsection \<open>Enemy\<close>

text \<open>\<^verbatim>\<open>Enemy.__init__(self, x, y, name, health, damage, faction="Gang")\<close>.\<close>

definition Enemy_init :: "int \<Rightarrow> int \<Rightarrow> string \<Rightarrow> int \<Rightarrow> int \<Rightarrow> string \<Rightarrow> obj" where
  "Enemy_init x y nm h d fa =
     (Character_init Enemy x y ENEMY_CHAR nm h 0 100)\<lparr>damage := d, faction := fa\<rparr>"

text \<open>
  The occupancy test of \<^verbatim>\<open>Enemy.move_randomly\<close> and \<^verbatim>\<open>Enemy.move_towards\<close>: another
  object whose own cell \<^verbatim>\<open>(obj.x, obj.y)\<close> is the target.
\<close>

definition is_occupied :: "game \<Rightarrow> ref \<Rightarrow> int \<Rightarrow> int \<Rightarrow> bool" where
  "is_occupied g e nx ny =
     list_ex (\<lambda>r. r \<noteq> e \<and> obj_x (heap g r) = nx \<and> obj_y (heap g r) = ny) (objects g)"

text \<open>
  \<^verbatim>\<open>random.shuffle\<close>: for \<open>i\<close> from the last index down to 1, swap position \<open>i\<close> with
  position \<^verbatim>\<open>randbelow(i + 1)\<close>.
\<close>

definition swap :: "nat \<Rightarrow> nat \<Rightarrow> 'a list \<Rightarrow> 'a list" where
  "swap i j xs = xs[i := xs ! j, j := xs ! i]"

definition shuffle :: "'a list \<Rightarrow> game \<Rightarrow> 'a list \<times> game" where
  "shuffle xs g =
     fold (\<lambda>i (ys, g'). case randbelow (Suc i) g' of (j, g'') \<Rightarrow> (swap i j ys, g''))
       (rev [1 ..< length xs]) (xs, g)"

definition step_free :: "game \<Rightarrow> ref \<Rightarrow> int \<times> int \<Rightarrow> bool" where
  "step_free g e d =
     (let new_x = obj_x (heap g e) + fst d; new_y = obj_y (heap g e) + snd d
      in in_bounds new_x new_y \<and> \<not> is_occupied g e new_x new_y)"

definition step_to :: "ref \<Rightarrow> int \<times> int \<Rightarrow> game \<Rightarrow> game" where
  "step_to e d g = upd e (\<lambda>ob. ob\<lparr>obj_x := obj_x ob + fst d, obj_y := obj_y ob + snd d\<rparr>) g"

definition move_randomly :: "ref \<Rightarrow> game \<Rightarrow> bool \<times> game" where
  "move_randomly e g =
     (case shuffle [(0, 1), (0, - 1), (1, 0), (- 1, 0)] g of
        (possible_moves, g1) \<Rightarrow>
          (case find (step_free g1 e) possible_moves of
             None \<Rightarrow> (False, g1)
           | Some d \<Rightarrow> (True, step_to e d g1)))"

definition toward :: "int \<Rightarrow> int \<Rightarrow> int" where
  "toward target pos = (if target > pos then 1 else if target < pos then - 1 else 0)"

definition move_towards :: "ref \<Rightarrow> int \<Rightarrow> int \<Rightarrow> game \<Rightarrow> bool \<times> game" where
  "move_towards e target_x target_y g =
     (let d = (toward target_x (obj_x (heap g e)), toward target_y (obj_y (heap g e)))
      in if step_free g e d then (True, step_to e d g) else (False, g))"

definition adjacent :: "obj \<Rightarrow> obj \<Rightarrow> bool" where
  "adjacent a b = (\<bar>obj_x a - obj_x b\<bar> \<le> 1 \<and> \<bar>obj_y a - obj_y b\<bar> \<le> 1)"

definition take_turn :: "ref \<Rightarrow> ref \<Rightarrow> game \<Rightarrow> game" where
  "take_turn e p g =
     (if health (heap g e) \<le> 0 then g
      else if faction (heap g e) = ''Police'' \<and> wanted_level (heap g p) > 0
      then
        (let dx = toward (obj_x (heap g p)) (obj_x (heap g e));
             dy = toward (obj_y (heap g p)) (obj_y (heap g e))
         in if dx \<noteq> 0 \<or> dy \<noteq> 0
            then (case move_towards e (obj_x (heap g p)) (obj_y (heap g p)) g of
                    (True, g1) \<Rightarrow> g1
                  | (False, g1) \<Rightarrow> snd (move_randomly e g1))
            else snd (move_randomly e g))
      else if adjacent (heap g e) (heap g p) then snd (Character_f e p g)
      else snd (move_randomly e g))"

subsection \<open>Items\<close>

text \<open>
  \<^verbatim>\<open>Item.__init__(self, x, y, name, description, char=ITEM_CHAR, value=0)\<close>, run for the
  class being constructed; the subclasses call it with \<^verbatim>\<open>value=value\<close> and the default
  glyph.
\<close>

definition Item_init :: "cls \<Rightarrow> int \<Rightarrow> int \<Rightarrow> string \<Rightarrow> string \<Rightarrow> string \<Rightarrow> int \<Rightarrow> obj" where
  "Item_init c x y nm desc ch v =
     (GameObject_init c x y ch nm)\<lparr>description := desc, item_value := v\<rparr>"

definition Weapon_init :: "int \<Rightarrow> int \<Rightarrow> string \<Rightarrow> string \<Rightarrow> int \<Rightarrow> int \<Rightarrow> obj" where
  "Weapon_init x y nm desc d v = (Item_init Weapon x y nm desc ITEM_CHAR v)\<lparr>damage := d\<rparr>"

definition HealthPack_init :: "int \<Rightarrow> int \<Rightarrow> string \<Rightarrow> string \<Rightarrow> int \<Rightarrow> int \<Rightarrow> obj" where
  "HealthPack_init x y nm desc h v =
     (Item_init HealthPack x y nm desc ITEM_CHAR v)\<lparr>heal_amount := h\<rparr>"

definition MoneyBundle_init :: "int \<Rightarrow> int \<Rightarrow> string \<Rightarrow> string \<Rightarrow> int \<Rightarrow> obj" where
  "MoneyBundle_init x y nm desc a =
     (Item_init MoneyBundle x y nm desc ITEM_CHAR a)\<lparr>amount := a\<rparr>"

definition Food_init :: "int \<Rightarrow> int \<Rightarrow> string \<Rightarrow> string \<Rightarrow> int \<Rightarrow> int \<Rightarrow> obj" where
  "Food_init x y nm desc h v = (Item_init Food x y nm desc ITEM_CHAR v)\<lparr>hunger_restore := h\<rparr>"

definition Drink_init :: "int \<Rightarrow> int \<Rightarrow> string \<Rightarrow> string \<Rightarrow> int \<Rightarrow> int \<Rightarrow> obj" where
  "Drink_init x y nm desc t v = (Item_init Drink x y nm desc ITEM_CHAR v)\<lparr>thirst_restore := t\<rparr>"

subsection \<open>Mission\<close>

definition is_completed :: "mission \<Rightarrow> ref \<Rightarrow> game \<Rightarrow> bool" where
  "is_completed m p g =
     (case objective_func m of
        HasItem c n \<Rightarrow>
          list_ex (\<lambda>it. isinstance (heap g it) c \<and> obj_name (heap g it) = n)
            (inventory (heap g p)))"

definition complete :: "mission \<Rightarrow> ref \<Rightarrow> game \<Rightarrow> game" where
  "complete m p g =
     (let g1 = upd p (\<lambda>ob. ob\<lparr>money := money ob + reward_money m\<rparr>) g
      in case reward_item m of None \<Rightarrow> g1 | Some it \<Rightarrow> add_item p it g1)"

subsection \<open>NPC and BigSmoke\<close>

text \<open>\<^verbatim>\<open>NPC.__init__(self, x, y, name, dialogue, char=NPC_CHAR)\<close>, for the class constructed.\<close>

definition NPC_init :: "cls \<Rightarrow> int \<Rightarrow> int \<Rightarrow> string \<Rightarrow> string \<Rightarrow> string \<Rightarrow> obj" where
  "NPC_init c x y nm dlg ch =
     (Character_init c x y ch nm 50 0 100)\<lparr>dialogue := dlg, mission_offered := None,
        mission_completed := False\<rparr>"

definition BigSmoke_init :: "int \<Rightarrow> int \<Rightarrow> obj" where
  "BigSmoke_init x y =
     (NPC_init BigSmoke x y ''Big Smoke'' ''You picked the wrong house, fool!'' (BIG_SMOKE_CHARS ! 0))\<lparr>
        char2_x := x + 1, char2_y := y\<rparr>"

text \<open>
  The completion branch shared by \<^verbatim>\<open>NPC.talk\<close> and \<^verbatim>\<open>BigSmoke.talk\<close>: rewards, the name
  appended to \<^verbatim>\<open>missions_completed\<close>, the active mission cleared, the NPC flagged.
\<close>

definition finish_mission :: "ref \<Rightarrow> mission \<Rightarrow> ref \<Rightarrow> game \<Rightarrow> game" where
  "finish_mission n m p g =
     (let g1 = complete m p g;
          g2 = upd p (\<lambda>ob. ob\<lparr>missions_completed := missions_completed ob @ [mission_name m]\<rparr>) g1;
          g3 = upd p (\<lambda>ob. ob\<lparr>current_mission := None\<rparr>) g2
      in upd n (\<lambda>ob. ob\<lparr>mission_completed := True\<rparr>) g3)"

text \<open>The accept prompt: one line is read, and exactly \<^verbatim>\<open>yes\<close> (in any case) accepts.\<close>

definition offer :: "mission \<Rightarrow> ref \<Rightarrow> game \<Rightarrow> exn + game" where
  "offer m p g =
     and_then (input g) (\<lambda>(choice, g1).
       if lower choice = ''yes''
       then Inr (upd p (\<lambda>ob. ob\<lparr>current_mission := Some m\<rparr>) g1)
       else Inr g1)"

definition NPC_talk :: "ref \<Rightarrow> ref \<Rightarrow> game \<Rightarrow> exn + game" where
  "NPC_talk n p g =
     (case mission_offered (heap g n) of
        None \<Rightarrow> Inr g
      | Some m \<Rightarrow>
          if mission_completed (heap g n) then Inr g
          else if is_completed m p g then Inr (finish_mission n m p g)
          else if current_mission (heap g p) = None then offer m p g
          else Inr g)"

definition BigSmoke_talk :: "ref \<Rightarrow> ref \<Rightarrow> game \<Rightarrow> exn + game" where
  "BigSmoke_talk n p g =
     (if ''Sweet's Mission'' \<in> set (missions_completed (heap g p))
         \<and> ''Ryder's Mission'' \<in> set (missions_completed (heap g p))
      then
        if \<not> mission_completed (heap g n)
        then
          if list_ex (\<lambda>it. isinstance (heap g it) MoneyBundle \<and> obj_name (heap g it) = ''Cash Bundle'')
               (inventory (heap g p))
          then
            (case mission_offered (heap g n) of
               None \<Rightarrow> Inr g
             | Some m \<Rightarrow> if is_completed m p g then Inr (finish_mission n m p g) else Inr g)
          else
            if current_mission (heap g p) = None
            then (case mission_offered (heap g n) of
                    None \<Rightarrow> Inl AttributeError  \<comment> \<open>\<^verbatim>\<open>self.mission_offered.name\<close> on \<^verbatim>\<open>None\<close>\<close>
                  | Some m \<Rightarrow> offer m p g)
            else Inr g
        else Inr g
      else Inr g)"

text \<open>\<^verbatim>\<open>obj.talk(player)\<close>: the method of the object's class.\<close>

definition talk :: "ref \<Rightarrow> ref \<Rightarrow> game \<Rightarrow> exn + game" where
  "talk n p g = (if isinstance (heap g n) BigSmoke then BigSmoke_talk n p g else NPC_talk n p g)"

subsection \<open>Shop\<close>

definition Shop_init :: "int \<Rightarrow> int \<Rightarrow> string \<Rightarrow> (ref \<times> int) list \<Rightarrow> string \<Rightarrow> obj" where
  "Shop_init x y nm catalog ty =
     (GameObject_init Shop x y SHOP_CHAR nm)\<lparr>shop_inventory := catalog, shop_type := ty\<rparr>"

text \<open>
  The \<^verbatim>\<open>while True\<close> loop of \<^verbatim>\<open>Shop.enter\<close>, by recursion on the lines left on standard
  input: every round reads one, \<^verbatim>\<open>0\<close> leaves the shop, and the end of the input raises.
\<close>

fun shop_loop :: "ref \<Rightarrow> ref \<Rightarrow> string list \<Rightarrow> game \<Rightarrow> exn + game" where
  "shop_loop s p [] g = Inl EOFError"
| "shop_loop s p (choice # rest) g =
     (let g0 = g\<lparr>stdin := rest\<rparr>
      in if choice = ''0'' then Inr g0
         else case py_int choice of
           None \<Rightarrow> shop_loop s p rest g0
         | Some n \<Rightarrow>
             if 1 \<le> n \<and> n \<le> int (length (shop_inventory (heap g0 s)))
             then
               (case shop_inventory (heap g0 s) ! nat (n - 1) of
                  (item_to_buy, price) \<Rightarrow>
                    if money (heap g0 p) \<ge> price
                    then shop_loop s p rest
                           (add_item p item_to_buy (upd p (\<lambda>ob. ob\<lparr>money := money ob - price\<rparr>) g0))
                    else shop_loop s p rest g0)
             else shop_loop s p rest g0)"

definition Shop_enter :: "ref \<Rightarrow> ref \<Rightarrow> game \<Rightarrow> exn + game" where
  "Shop_enter s p g = shop_loop s p (stdin g) g"

subsection \<open>GameMap\<close>

definition add_object :: "ref \<Rightarrow> game \<Rightarrow> game" where
  "add_object r g = g\<lparr>objects := objects g @ [r]\<rparr>"

definition remove_object :: "ref \<Rightarrow> game \<Rightarrow> game" where
  "remove_object r g = (if r \<in> set (objects g) then g\<lparr>objects := remove1 r (objects g)\<rparr> else g)"

text \<open>The test of \<^verbatim>\<open>get_object_at\<close>: Big Smoke is at both of his cells.\<close>

definition is_at :: "obj \<Rightarrow> int \<Rightarrow> int \<Rightarrow> bool" where
  "is_at ob x y =
     (if isinstance ob BigSmoke
      then (obj_x ob = x \<and> obj_y ob = y) \<or> (char2_x ob = x \<and> char2_y ob = y)
      else obj_x ob = x \<and> obj_y ob = y)"

definition get_object_at :: "game \<Rightarrow> int \<Rightarrow> int \<Rightarrow> ref option" where
  "get_object_at g x y = find (\<lambda>r. is_at (heap g r) x y) (objects g)"

text \<open>
  \<^verbatim>\<open>GameMap.render\<close> changes nothing; what matters is whether it raises. Placing the
  objects is guarded by bounds tests. The player's vehicle and the player are written
  into the grid unguarded (a Python index \<open>i\<close> into a list of length \<open>n\<close> is valid for
  \<open>- n \<le> i < n\<close>), and the fog loop reads \<^verbatim>\<open>discovered_map[y][x]\<close> for every cell.
\<close>

definition index_ok :: "int \<Rightarrow> int \<Rightarrow> bool" where
  "index_ok n i = (- n \<le> i \<and> i < n)"

definition grid_ok :: "game \<Rightarrow> obj \<Rightarrow> bool" where
  "grid_ok g ob = (index_ok (max 0 (map_height g)) (obj_y ob) \<and> index_ok (max 0 (map_width g)) (obj_x ob))"

definition fog_ok :: "game \<Rightarrow> bool list list \<Rightarrow> bool" where
  "fog_ok g dm =
     list_all (\<lambda>y. list_all (\<lambda>x. y < length dm \<and> x < length (dm ! y)) [0 ..< nat (map_width g)])
       [0 ..< nat (map_height g)]"

definition render :: "game \<Rightarrow> ref \<Rightarrow> exn + unit" where
  "render g p =
     (if (case current_vehicle (heap g p) of None \<Rightarrow> False | Some v \<Rightarrow> \<not> grid_ok g (heap g v))
      then Inl IndexError
      else if \<not> grid_ok g (heap g p) then Inl IndexError
      else if \<not> fog_ok g (discovered_map (heap g p)) then Inl IndexError
      else Inr ())"

subsection \<open>A new game\<close>

text \<open>
  \<^verbatim>\<open>Game.__init__\<close> builds every object anew and drops every reference to the old ones,
  so the model starts from an empty store; only the environment is carried over.
\<close>

definition empty_world :: "game \<Rightarrow> game" where
  "empty_world env =
     \<lparr> heap = (\<lambda>r. blank GameObject), next_ref = 0, objects = [],
       map_width = MAP_WIDTH, map_height = MAP_HEIGHT, player = 0, running = True,
       game_time = 0, npcs = [], items = [], shops = [], enemies = [], vehicles = [],
       missions = [], stdin = stdin env, random = random env, disk = disk env,
       disk_writable = disk_writable env \<rparr>"

text \<open>Construct an object, \<^verbatim>\<open>game_map.add_object\<close> it, and file it in a dictionary.\<close>

definition place :: "obj \<Rightarrow> (ref \<Rightarrow> game \<Rightarrow> game) \<Rightarrow> game \<Rightarrow> game" where
  "place ob file_it g = (case new ob g of (r, g1) \<Rightarrow> file_it r (add_object r g1))"

definition as_npc :: "string \<Rightarrow> ref \<Rightarrow> game \<Rightarrow> game" where
  "as_npc k r g = g\<lparr>npcs := AList.update k r (npcs g)\<rparr>"
definition as_item :: "string \<Rightarrow> ref \<Rightarrow> game \<Rightarrow> game" where
  "as_item k r g = g\<lparr>items := AList.update k r (items g)\<rparr>"
definition as_shop :: "string \<Rightarrow> ref \<Rightarrow> game \<Rightarrow> game" where
  "as_shop k r g = g\<lparr>shops := AList.update k r (shops g)\<rparr>"
definition as_enemy :: "string \<Rightarrow> ref \<Rightarrow> game \<Rightarrow> game" where
  "as_enemy k r g = g\<lparr>enemies := AList.update k r (enemies g)\<rparr>"
definition as_vehicle :: "string \<Rightarrow> ref \<Rightarrow> game \<Rightarrow> game" where
  "as_vehicle k r g = g\<lparr>vehicles := AList.update k r (vehicles g)\<rparr>"

text \<open>A shop's catalogue: its items are constructed but not put on the map.\<close>

fun stock :: "(obj \<times> int) list \<Rightarrow> game \<Rightarrow> (ref \<times> int) list \<times> game" where
  "stock [] g = ([], g)"
| "stock ((ob, price) # rest) g =
     (case new ob g of (r, g1) \<Rightarrow> (case stock rest g1 of (rs, g2) \<Rightarrow> ((r, price) # rs, g2)))"

definition place_shop ::
  "int \<Rightarrow> int \<Rightarrow> string \<Rightarrow> (obj \<times> int) list \<Rightarrow> string \<Rightarrow> string \<Rightarrow> game \<Rightarrow> game" where
  "place_shop x y nm catalog ty k g =
     (case stock catalog g of (rs, g1) \<Rightarrow> place (Shop_init x y nm rs ty) (as_shop k) g1)"

definition initialize_game_objects :: "game \<Rightarrow> game" where
  "initialize_game_objects g =
     fold (\<lambda>step. step)
       [ place (NPC_init NPC 5 5 ''Sweet''
                  ''Hey CJ, long time no see! We got some business to handle.'' NPC_CHAR)
           (as_npc ''sweet''),
         place (NPC_init NPC 10 10 ''Ryder''
                  ''Yo, CJ! You still busta? Go get me some spray cans.'' NPC_CHAR)
           (as_npc ''ryder''),
         place (BigSmoke_init 20 15) (as_npc ''big_smoke''),
         place (Weapon_init 2 2 ''Pistol'' ''A basic handgun.'' 15 75) (as_item ''pistol''),
         place (Weapon_init (MAP_WIDTH - 5) (MAP_HEIGHT - 5) ''Shotgun''
                  ''Deals heavy damage up close.'' 30 200)
           (as_item ''shotgun''),
         place (HealthPack_init 7 7 ''Small Health Pack'' ''Restores a bit of health.'' 25 30)
           (as_item ''health_pack_1''),
         place (MoneyBundle_init (MAP_WIDTH div 4) (MAP_HEIGHT div 4) ''Cash Bundle''
                  ''A stack of money.'' 200)
           (as_item ''cash_bundle''),
         place_shop (MAP_WIDTH - 10) 5 ''Ammu-Nation''
           [ (Weapon_init 0 0 ''Knife'' ''A sharp blade.'' 10 50, 50),
             (Weapon_init 0 0 ''Uzi'' ''Fast firing submachine gun.'' 20 150, 150),
             (HealthPack_init 0 0 ''Large Health Pack'' ''Restores a lot of health.'' 50 75, 75) ]
           ''Ammu-Nation'' ''ammu_nation'',
         place_shop (MAP_WIDTH div 2) 2 ''Cluckin' Bell''
           [ (Food_init 0 0 ''Cluckin' Bell Burger'' ''A greasy burger.'' 40 15, 15),
             (Drink_init 0 0 ''Sprunk'' ''Refreshing soda.'' 30 10, 10) ]
           ''Fast Food'' ''cluckin_bell'',
         place (Enemy_init 15 10 ''Gangster'' 40 10 ''Ballaz'') (as_enemy ''gangster1''),
         place (Enemy_init 25 8 ''Gangster'' 40 10 ''Vagos'') (as_enemy ''gangster2''),
         place (Enemy_init (MAP_WIDTH - 2) 2 ''Police Officer'' 60 15 ''Police'')
           (as_enemy ''police_officer''),
         place (Vehicle_init 30 10 ''Green Sabre'' 100 3 VEHICLE_CHAR) (as_vehicle ''green_sabre''),
         place (Vehicle_init (MAP_WIDTH - 5) 15 ''Police Car'' 120 4 VEHICLE_CHAR)
           (as_vehicle ''police_car'') ]
       g"

definition sweet_mission :: mission where
  "sweet_mission =
     \<lparr> mission_name = ''Sweet's Mission'',
       mission_description = ''Find the Pistol and bring it back to Sweet.'',
       objective_func = HasItem Weapon ''Pistol'', reward_money = 100, reward_item = None,
       prerequisite_missions = [] \<rparr>"

definition ryder_mission :: mission where
  "ryder_mission =
     \<lparr> mission_name = ''Ryder's Mission'',
       mission_description = ''Find the Shotgun and show it to Ryder.'',
       objective_func = HasItem Weapon ''Shotgun'', reward_money = 150, reward_item = None,
       prerequisite_missions = [''Sweet's Mission''] \<rparr>"

definition big_smoke_mission :: mission where
  "big_smoke_mission =
     \<lparr> mission_name = ''Big Smoke's Mission'',
       mission_description = ''Collect the Cash Bundle for Big Smoke.'',
       objective_func = HasItem MoneyBundle ''Cash Bundle'', reward_money = 200,
       reward_item = None,
       prerequisite_missions = [''Sweet's Mission'', ''Ryder's Mission''] \<rparr>"

text \<open>
  \<^verbatim>\<open>self.npcs[key].mission_offered = m; self.missions[m.name] = m\<close>; a missing key
  raises.
\<close>

definition assign_mission :: "string \<Rightarrow> mission \<Rightarrow> game \<Rightarrow> exn + game" where
  "assign_mission k m g =
     (case map_of (npcs g) k of
        None \<Rightarrow> Inl KeyError
      | Some n \<Rightarrow>
          Inr ((upd n (\<lambda>ob. ob\<lparr>mission_offered := Some m\<rparr>) g)
                 \<lparr>missions := AList.update (mission_name m) m (missions g)\<rparr>))"

definition initialize_missions :: "game \<Rightarrow> exn + game" where
  "initialize_missions g =
     and_then (assign_mission ''sweet'' sweet_mission g) (\<lambda>g1.
     and_then (assign_mission ''ryder'' ryder_mission g1) (\<lambda>g2.
     assign_mission ''big_smoke'' big_smoke_mission g2))"

definition Game_init :: "game \<Rightarrow> exn + game" where
  "Game_init env =
     (let g0 = empty_world env;
          g1 = place (Player_init (MAP_WIDTH div 2) (MAP_HEIGHT div 2)) (\<lambda>r g. g\<lparr>player := r\<rparr>) g0
      in initialize_missions (initialize_game_objects g1))"

subsection \<open>Saving: \<^verbatim>\<open>to_dict\<close> and \<^verbatim>\<open>save_game\<close>\<close>

text \<open>
  A Python dictionary is an association list in insertion order; \<^verbatim>\<open>d.update({...})\<close>
  stores the pairs one by one. A tuple is written by \<^verbatim>\<open>json.dump\<close> as a list.
\<close>

definition dict_update :: "(string \<times> json) list \<Rightarrow> (string \<times> json) list \<Rightarrow> (string \<times> json) list" where
  "dict_update d kvs = fold (\<lambda>(k, v). AList.update k v) kvs d"

definition JInt :: "int \<Rightarrow> json" where
  "JInt i = JNum (of_int i)"

definition name_or_null :: "game \<Rightarrow> ref option \<Rightarrow> json" where
  "name_or_null g r = (case r of None \<Rightarrow> JNull | Some a \<Rightarrow> JStr (obj_name (heap g a)))"

definition GameObject_to_dict :: "obj \<Rightarrow> (string \<times> json) list" where
  "GameObject_to_dict ob =
     [ (''x'', JInt (obj_x ob)), (''y'', JInt (obj_y ob)), (''char'', JStr (obj_char ob)),
       (''name'', JStr (obj_name ob)), (''type'', JStr (class_name (cls_of ob))) ]"

definition Item_to_dict :: "obj \<Rightarrow> (string \<times> json) list" where
  "Item_to_dict ob =
     dict_update (GameObject_to_dict ob)
       [ (''description'', JStr (description ob)), (''value'', JInt (item_value ob)) ]"

text \<open>\<^verbatim>\<open>item.to_dict()\<close>: the method of the item's class.\<close>

definition item_to_dict :: "obj \<Rightarrow> json" where
  "item_to_dict ob =
     JObj (case cls_of ob of
        Weapon \<Rightarrow> dict_update (Item_to_dict ob) [(''damage'', JInt (damage ob))]
      | HealthPack \<Rightarrow> dict_update (Item_to_dict ob) [(''heal_amount'', JInt (heal_amount ob))]
      | MoneyBundle \<Rightarrow> dict_update (Item_to_dict ob) [(''amount'', JInt (amount ob))]
      | Food \<Rightarrow> dict_update (Item_to_dict ob) [(''hunger_restore'', JInt (hunger_restore ob))]
      | Drink \<Rightarrow> dict_update (Item_to_dict ob) [(''thirst_restore'', JInt (thirst_restore ob))]
      | _ \<Rightarrow> Item_to_dict ob)"

definition Character_to_dict :: "game \<Rightarrow> obj \<Rightarrow> (string \<times> json) list" where
  "Character_to_dict g ob =
     dict_update (GameObject_to_dict ob)
       [ (''health'', JInt (health ob)), (''max_health'', JInt (max_health ob)),
         (''money'', JInt (money ob)), (''stamina'', JNum (stamina ob)),
         (''max_stamina'', JNum (max_stamina ob)),
         (''inventory'', JList (map (\<lambda>it. item_to_dict (heap g it)) (inventory ob))),
         (''current_weapon'', name_or_null g (current_weapon ob)) ]"

definition mission_name_or_null :: "mission option \<Rightarrow> json" where
  "mission_name_or_null m = (case m of None \<Rightarrow> JNull | Some a \<Rightarrow> JStr (mission_name a))"

definition Player_to_dict :: "game \<Rightarrow> obj \<Rightarrow> json" where
  "Player_to_dict g ob =
     JObj (dict_update (Character_to_dict g ob)
       [ (''discovered_map'', JList (map (\<lambda>row. JList (map JBool row)) (discovered_map ob))),
         (''missions_completed'', JList (map JStr (missions_completed ob))),
         (''current_mission'', mission_name_or_null (current_mission ob)),
         (''wanted_level'', JInt (wanted_level ob)), (''hunger'', JInt (hunger ob)),
         (''thirst'', JInt (thirst ob)), (''driving_skill'', JInt (driving_skill ob)),
         (''weapon_skill'', JInt (weapon_skill ob)),
         (''current_vehicle'', name_or_null g (current_vehicle ob)) ])"

definition NPC_to_dict :: "game \<Rightarrow> obj \<Rightarrow> (string \<times> json) list" where
  "NPC_to_dict g ob =
     dict_update (Character_to_dict g ob)
       [ (''dialogue'', JStr (dialogue ob)),
         (''mission_offered'', mission_name_or_null (mission_offered ob)),
         (''mission_completed'', JBool (mission_completed ob)) ]"

text \<open>\<^verbatim>\<open>npc.to_dict()\<close> for the values of \<^verbatim>\<open>self.npcs\<close>: \<^verbatim>\<open>BigSmoke\<close> adds his second cell.\<close>

definition npc_to_dict :: "game \<Rightarrow> obj \<Rightarrow> json" where
  "npc_to_dict g ob =
     JObj (if cls_of ob = BigSmoke
           then dict_update (NPC_to_dict g ob)
                  [(''char2_x'', JInt (char2_x ob)), (''char2_y'', JInt (char2_y ob))]
           else NPC_to_dict g ob)"

definition Enemy_to_dict :: "game \<Rightarrow> obj \<Rightarrow> json" where
  "Enemy_to_dict g ob =
     JObj (dict_update (Character_to_dict g ob)
       [(''damage'', JInt (damage ob)), (''faction'', JStr (faction ob))])"

definition Shop_to_dict :: "game \<Rightarrow> obj \<Rightarrow> json" where
  "Shop_to_dict g ob =
     JObj (dict_update (GameObject_to_dict ob)
       [ (''inventory'',
            JList (map (\<lambda>(it, price). JList [item_to_dict (heap g it), JInt price]) (shop_inventory ob))),
         (''shop_type'', JStr (shop_type ob)) ])"

definition Vehicle_to_dict :: "game \<Rightarrow> obj \<Rightarrow> json" where
  "Vehicle_to_dict g ob =
     JObj (dict_update (GameObject_to_dict ob)
       [ (''health'', JInt (health ob)), (''max_health'', JInt (max_health ob)),
         (''speed'', JInt (speed ob)), (''occupant'', name_or_null g (occupant ob)) ])"

definition dict_of :: "game \<Rightarrow> (game \<Rightarrow> obj \<Rightarrow> json) \<Rightarrow> (string \<times> ref) list \<Rightarrow> json" where
  "dict_of g to_dict d = JObj (map (\<lambda>(k, r). (k, to_dict g (heap g r))) d)"

definition save_data :: "game \<Rightarrow> json" where
  "save_data g =
     JObj
       [ (''version'', JInt 2),
         (''game_time'', JInt (game_time g)),
         (''player'', Player_to_dict g (heap g (player g))),
         (''npcs'', dict_of g npc_to_dict (npcs g)),
         (''shops'', dict_of g Shop_to_dict (shops g)),
         (''enemies'', dict_of g Enemy_to_dict (enemies g)),
         (''vehicles'', dict_of g Vehicle_to_dict (vehicles g)),
         (''items_on_map'',
            JList (map (\<lambda>r. item_to_dict (heap g r))
                     (filter (\<lambda>r. isinstance (heap g r) Item
                                  \<and> r \<notin> set (inventory (heap g (player g))))
                        (objects g)))) ]"

text \<open>
  \<^verbatim>\<open>save_game\<close>: the document is written to the save file; an \<^verbatim>\<open>IOError\<close> while writing
  is caught and reported, and the file is then taken to be as it was.
\<close>

definition save_game :: "game \<Rightarrow> game" where
  "save_game g = (if disk_writable g then g\<lparr>disk := Document (save_data g)\<rparr> else g)"

subsection \<open>Loading: \<^verbatim>\<open>from_dict\<close> and \<^verbatim>\<open>load_game\<close>\<close>

text \<open>
  \<^verbatim>\<open>data[key]\<close> and \<^verbatim>\<open>data.get(key, default)\<close> on a parsed JSON value. The attributes
  of the model are typed, so a value of the wrong JSON type, which Python would store
  as it is, raises \<^verbatim>\<open>TypeError\<close> where it is read; \<^verbatim>\<open>load_game\<close> treats every exception
  alike.
\<close>

definition getitem :: "json \<Rightarrow> string \<Rightarrow> exn + json" where
  "getitem data k =
     (case data of
        JObj kvs \<Rightarrow> (case map_of kvs k of None \<Rightarrow> Inl KeyError | Some v \<Rightarrow> Inr v)
      | _ \<Rightarrow> Inl TypeError)"

definition get :: "json \<Rightarrow> string \<Rightarrow> json \<Rightarrow> exn + json" where
  "get data k dflt =
     (case data of
        JObj kvs \<Rightarrow> Inr (case map_of kvs k of None \<Rightarrow> dflt | Some v \<Rightarrow> v)
      | _ \<Rightarrow> Inl AttributeError)"

definition as_int :: "json \<Rightarrow> exn + int" where
  "as_int v = (case v of JNum r \<Rightarrow> if of_int \<lfloor>r\<rfloor> = r then Inr \<lfloor>r\<rfloor> else Inl TypeError
               | _ \<Rightarrow> Inl TypeError)"

definition as_rat :: "json \<Rightarrow> exn + rat" where
  "as_rat v = (case v of JNum r \<Rightarrow> Inr r | _ \<Rightarrow> Inl TypeError)"

definition as_str :: "json \<Rightarrow> exn + string" where
  "as_str v = (case v of JStr s \<Rightarrow> Inr s | _ \<Rightarrow> Inl TypeError)"

definition as_bool :: "json \<Rightarrow> exn + bool" where
  "as_bool v = (case v of JBool b \<Rightarrow> Inr b | _ \<Rightarrow> Inl TypeError)"

fun each :: "('a \<Rightarrow> exn + 'b) \<Rightarrow> 'a list \<Rightarrow> exn + 'b list" where
  "each rd [] = Inr []"
| "each rd (a # as) =
     (case rd a of Inl e \<Rightarrow> Inl e
      | Inr b \<Rightarrow> (case each rd as of Inl e \<Rightarrow> Inl e | Inr bs \<Rightarrow> Inr (b # bs)))"

definition as_list :: "(json \<Rightarrow> exn + 'b) \<Rightarrow> json \<Rightarrow> exn + 'b list" where
  "as_list rd v = (case v of JList vs \<Rightarrow> each rd vs | _ \<Rightarrow> Inl TypeError)"

text \<open>Python's truth value of a parsed JSON value, and what iterating over it yields.\<close>

definition truthy :: "json \<Rightarrow> bool" where
  "truthy v = (case v of JNull \<Rightarrow> False | JBool b \<Rightarrow> b | JNum r \<Rightarrow> r \<noteq> 0 | JStr s \<Rightarrow> s \<noteq> []
               | JList vs \<Rightarrow> vs \<noteq> [] | JObj kvs \<Rightarrow> kvs \<noteq> [])"

definition iterate :: "json \<Rightarrow> exn + json list" where
  "iterate v = (case v of JList vs \<Rightarrow> Inr vs | JObj kvs \<Rightarrow> Inr (map (\<lambda>kv. JStr (fst kv)) kvs)
                | JStr s \<Rightarrow> Inr (map (\<lambda>c. JStr [c]) s) | _ \<Rightarrow> Inl TypeError)"

definition dict_items :: "json \<Rightarrow> exn + (string \<times> json) list" where
  "dict_items v = (case v of JObj kvs \<Rightarrow> Inr kvs | _ \<Rightarrow> Inl AttributeError)"

text \<open>
  The number of positional arguments (after \<^verbatim>\<open>self\<close>) that the \<^verbatim>\<open>__init__\<close> of each class
  takes, least and most; a call with another number raises \<^verbatim>\<open>TypeError\<close>.
\<close>

fun init_arity :: "cls \<Rightarrow> nat \<times> nat" where
  "init_arity GameObject = (3, 4)"
| "init_arity Character = (5, 7)"
| "init_arity Player = (2, 2)"
| "init_arity NPC = (4, 5)"
| "init_arity BigSmoke = (2, 2)"
| "init_arity Enemy = (5, 6)"
| "init_arity Item = (4, 6)"
| "init_arity Weapon = (6, 6)"
| "init_arity HealthPack = (6, 6)"
| "init_arity MoneyBundle = (5, 5)"
| "init_arity Food = (6, 6)"
| "init_arity Drink = (6, 6)"
| "init_arity Shop = (4, 5)"
| "init_arity Vehicle = (5, 6)"

definition accepts :: "cls \<Rightarrow> nat \<Rightarrow> bool" where
  "accepts c n = (fst (init_arity c) \<le> n \<and> n \<le> snd (init_arity c))"

text \<open>The item classes' \<^verbatim>\<open>from_dict\<close>; each builds one object.\<close>

definition Item_from_dict :: "json \<Rightarrow> exn + obj" where
  "Item_from_dict data =
     and_then (and_then (getitem data ''x'') as_int) (\<lambda>x.
     and_then (and_then (getitem data ''y'') as_int) (\<lambda>y.
     and_then (and_then (getitem data ''name'') as_str) (\<lambda>nm.
     and_then (and_then (get data ''description'' (JStr ''A generic item.'')) as_str) (\<lambda>desc.
     and_then (and_then (get data ''char'' (JStr ITEM_CHAR)) as_str) (\<lambda>ch.
     and_then (and_then (get data ''value'' (JInt 0)) as_int) (\<lambda>v.
     Inr (Item_init Item x y nm desc ch v)))))))"

text \<open>
  The five subclasses differ in the default description, the extra attribute with its
  key and default, and (for \<^verbatim>\<open>MoneyBundle\<close>) in taking no \<^verbatim>\<open>value\<close>.
\<close>

definition sub_item_from_dict ::
  "json \<Rightarrow> string \<Rightarrow> string \<Rightarrow> int \<Rightarrow> (int \<Rightarrow> int \<Rightarrow> string \<Rightarrow> string \<Rightarrow> int \<Rightarrow> int \<Rightarrow> obj) \<Rightarrow> exn + obj" where
  "sub_item_from_dict data dflt_desc key dflt mk =
     and_then (and_then (getitem data ''x'') as_int) (\<lambda>x.
     and_then (and_then (getitem data ''y'') as_int) (\<lambda>y.
     and_then (and_then (getitem data ''name'') as_str) (\<lambda>nm.
     and_then (and_then (get data ''description'' (JStr dflt_desc)) as_str) (\<lambda>desc.
     and_then (and_then (get data key (JInt dflt)) as_int) (\<lambda>extra.
     and_then (and_then (get data ''value'' (JInt 0)) as_int) (\<lambda>v.
     and_then (and_then (get data ''char'' (JStr ITEM_CHAR)) as_str) (\<lambda>ch.
     Inr ((mk x y nm desc extra v)\<lparr>obj_char := ch\<rparr>))))))))"

definition MoneyBundle_from_dict :: "json \<Rightarrow> exn + obj" where
  "MoneyBundle_from_dict data =
     and_then (and_then (getitem data ''x'') as_int) (\<lambda>x.
     and_then (and_then (getitem data ''y'') as_int) (\<lambda>y.
     and_then (and_then (getitem data ''name'') as_str) (\<lambda>nm.
     and_then (and_then (get data ''description'' (JStr ''A bundle of cash.'')) as_str) (\<lambda>desc.
     and_then (and_then (get data ''amount'' (JInt 0)) as_int) (\<lambda>a.
     and_then (and_then (get data ''char'' (JStr ITEM_CHAR)) as_str) (\<lambda>ch.
     Inr ((MoneyBundle_init x y nm desc a)\<lparr>obj_char := ch\<rparr>)))))))"

text \<open>\<^verbatim>\<open>ItemFactory.create_item_from_dict\<close>.\<close>

definition create_item_from_dict :: "json \<Rightarrow> exn + obj" where
  "create_item_from_dict data =
     and_then (get data ''type'' (JStr ''Item'')) (\<lambda>item_type.
       if item_type = JStr ''Weapon''
       then sub_item_from_dict data ''A weapon.'' ''damage'' 1 Weapon_init
       else if item_type = JStr ''HealthPack''
       then sub_item_from_dict data ''A health pack.'' ''heal_amount'' 25 HealthPack_init
       else if item_type = JStr ''MoneyBundle'' then MoneyBundle_from_dict data
       else if item_type = JStr ''Food''
       then sub_item_from_dict data ''Some food.'' ''hunger_restore'' 20 Food_init
       else if item_type = JStr ''Drink''
       then sub_item_from_dict data ''A drink.'' ''thirst_restore'' 20 Drink_init
       else Item_from_dict data)"

text \<open>
  \<^verbatim>\<open>[ItemFactory.create_item_from_dict(d) for d in data.get("inventory", [])]\<close>: the
  items are new objects of the store.
\<close>

fun create_items :: "json list \<Rightarrow> game \<Rightarrow> exn + (ref list \<times> game)" where
  "create_items [] g = Inr ([], g)"
| "create_items (d # ds) g =
     (case create_item_from_dict d of
        Inl e \<Rightarrow> Inl e
      | Inr ob \<Rightarrow>
          (case new ob g of (r, g1) \<Rightarrow>
             (case create_items ds g1 of Inl e \<Rightarrow> Inl e | Inr (rs, g2) \<Rightarrow> Inr (r # rs, g2))))"

definition load_inventory :: "json \<Rightarrow> game \<Rightarrow> exn + (ref list \<times> game)" where
  "load_inventory data g =
     and_then (and_then (get data ''inventory'' (JList [])) iterate) (\<lambda>ds. create_items ds g)"

text \<open>
  \<^verbatim>\<open>Character.from_dict(cls, data)\<close>. The seven arguments are looked up first (a missing
  key raises there), then \<^verbatim>\<open>cls\<close> is constructed with seven positional arguments,
  which only \<^verbatim>\<open>Character.__init__\<close> itself takes. Only then do the values meet the typed
  attributes of the model.
\<close>

definition Character_from_dict :: "cls \<Rightarrow> json \<Rightarrow> game \<Rightarrow> exn + (obj \<times> game)" where
  "Character_from_dict c data g =
     and_then (getitem data ''x'') (\<lambda>vx.
     and_then (getitem data ''y'') (\<lambda>vy.
     and_then (getitem data ''char'') (\<lambda>vch.
     and_then (getitem data ''name'') (\<lambda>vnm.
     and_then (getitem data ''health'') (\<lambda>vh.
     and_then (get data ''money'' (JInt 0)) (\<lambda>vm.
     and_then (get data ''stamina'' (JInt 100)) (\<lambda>vst.
     and_then (if accepts c 7 then Inr () else Inl TypeError) (\<lambda>constructed.
     and_then (as_int vx) (\<lambda>x.
     and_then (as_int vy) (\<lambda>y.
     and_then (as_str vch) (\<lambda>ch.
     and_then (as_str vnm) (\<lambda>nm.
     and_then (as_int vh) (\<lambda>h.
     and_then (as_int vm) (\<lambda>m.
     and_then (as_rat vst) (\<lambda>st.
     and_then (and_then (get data ''max_health'' (JInt h)) as_int) (\<lambda>mh.
     and_then (and_then (get data ''max_stamina'' (JNum st)) as_rat) (\<lambda>ms.
     and_then (load_inventory data g) (\<lambda>(inv_refs, g1).
     and_then (get data ''current_weapon'' JNull) (\<lambda>cw.
     Inr ((Character_init c x y ch nm h m st)\<lparr>max_health := mh, max_stamina := ms,
            inventory := inv_refs,
            current_weapon :=
              (if truthy cw
               then find (\<lambda>it. isinstance (heap g1 it) Weapon \<and> JStr (obj_name (heap g1 it)) = cw) inv_refs
               else None)\<rparr>, g1))))))))))))))))))))"

definition Player_from_dict :: "json \<Rightarrow> game \<Rightarrow> exn + (obj \<times> game)" where
  "Player_from_dict data g =
     and_then (Character_from_dict Player data g) (\<lambda>(ob, g1).
     and_then (and_then
       (get data ''discovered_map''
          (JList (replicate (nat MAP_HEIGHT) (JList (replicate (nat MAP_WIDTH) (JBool False))))))
       (as_list (as_list as_bool))) (\<lambda>dm.
     and_then (and_then (get data ''missions_completed'' (JList [])) (as_list as_str)) (\<lambda>mc.
     and_then (and_then (get data ''wanted_level'' (JInt 0)) as_int) (\<lambda>wl.
     and_then (and_then (get data ''hunger'' (JInt 100)) as_int) (\<lambda>hu.
     and_then (and_then (get data ''thirst'' (JInt 100)) as_int) (\<lambda>th.
     and_then (and_then (get data ''driving_skill'' (JInt 1)) as_int) (\<lambda>ds.
     and_then (and_then (get data ''weapon_skill'' (JInt 1)) as_int) (\<lambda>ws.
     Inr (ob\<lparr>discovered_map := dm, missions_completed := mc, wanted_level := wl, hunger := hu,
            thirst := th, driving_skill := ds, weapon_skill := ws, current_vehicle := None,
            current_mission := None, obj_char := PLAYER_CHAR\<rparr>, g1)))))))))"

definition NPC_from_dict :: "json \<Rightarrow> game \<Rightarrow> exn + (obj \<times> game)" where
  "NPC_from_dict data g =
     and_then (Character_from_dict NPC data g) (\<lambda>(ob, g1).
     and_then (and_then (get data ''dialogue'' (JStr ''...'')) as_str) (\<lambda>dlg.
     and_then (and_then (get data ''mission_completed'' (JBool False)) as_bool) (\<lambda>done.
     Inr (ob\<lparr>dialogue := dlg, mission_completed := done, mission_offered := None\<rparr>, g1))))"

definition BigSmoke_from_dict :: "json \<Rightarrow> game \<Rightarrow> exn + (obj \<times> game)" where
  "BigSmoke_from_dict data g =
     and_then (and_then (getitem data ''x'') as_int) (\<lambda>x.
     and_then (and_then (getitem data ''y'') as_int) (\<lambda>y.
     and_then (and_then (get data ''health'' (JInt 50)) as_int) (\<lambda>h.
     and_then (and_then (get data ''max_health'' (JInt h)) as_int) (\<lambda>mh.
     and_then (and_then (get data ''money'' (JInt 0)) as_int) (\<lambda>m.
     and_then (and_then (get data ''stamina'' (JInt 100)) as_rat) (\<lambda>st.
     and_then (and_then (get data ''max_stamina'' (JNum st)) as_rat) (\<lambda>ms.
     and_then (load_inventory data g) (\<lambda>(inv_refs, g1).
     and_then (and_then (get data ''dialogue'' (JStr ''You picked the wrong house, fool!'')) as_str) (\<lambda>dlg.
     and_then (and_then (get data ''mission_completed'' (JBool False)) as_bool) (\<lambda>done.
     Inr ((BigSmoke_init x y)\<lparr>health := h, max_health := mh, money := m, stamina := st,
            max_stamina := ms, inventory := inv_refs, current_weapon := None, dialogue := dlg,
            mission_completed := done, mission_offered := None\<rparr>, g1)))))))))))"

definition Enemy_from_dict :: "json \<Rightarrow> game \<Rightarrow> exn + (obj \<times> game)" where
  "Enemy_from_dict data g =
     and_then (and_then (getitem data ''x'') as_int) (\<lambda>x.
     and_then (and_then (getitem data ''y'') as_int) (\<lambda>y.
     and_then (and_then (getitem data ''name'') as_str) (\<lambda>nm.
     and_then (and_then (get data ''health'' (JInt 40)) as_int) (\<lambda>h.
     and_then (and_then (get data ''damage'' (JInt 10)) as_int) (\<lambda>d.
     and_then (and_then (get data ''faction'' (JStr ''Gang'')) as_str) (\<lambda>fa.
     and_then (and_then (get data ''max_health'' (JInt h)) as_int) (\<lambda>mh.
     and_then (and_then (get data ''money'' (JInt 0)) as_int) (\<lambda>m.
     and_then (and_then (get data ''stamina'' (JInt 100)) as_rat) (\<lambda>st.
     and_then (and_then (get data ''max_stamina'' (JNum st)) as_rat) (\<lambda>ms.
     and_then (load_inventory data g) (\<lambda>(inv_refs, g1).
     Inr ((Enemy_init x y nm h d fa)\<lparr>max_health := mh, money := m, stamina := st,
            max_stamina := ms, inventory := inv_refs, current_weapon := None,
            obj_char := (if fa \<noteq> ''Police'' then ENEMY_CHAR else POLICE_CHAR)\<rparr>, g1))))))))))))"

text \<open>A catalogue entry \<^verbatim>\<open>item_data, price\<close>: a two-element list.\<close>

fun create_stock :: "json list \<Rightarrow> game \<Rightarrow> exn + ((ref \<times> int) list \<times> game)" where
  "create_stock [] g = Inr ([], g)"
| "create_stock (d # ds) g =
     (case iterate d of
        Inr [item_data, price] \<Rightarrow>
          (case create_item_from_dict item_data of
             Inl e \<Rightarrow> Inl e
           | Inr ob \<Rightarrow>
               (case as_int price of
                  Inl e \<Rightarrow> Inl e
                | Inr pr \<Rightarrow>
                    (case new ob g of (r, g1) \<Rightarrow>
                       (case create_stock ds g1 of
                          Inl e \<Rightarrow> Inl e
                        | Inr (rs, g2) \<Rightarrow> Inr ((r, pr) # rs, g2)))))
      | Inr _ \<Rightarrow> Inl ValueError
      | Inl e \<Rightarrow> Inl e)"

definition Shop_from_dict :: "json \<Rightarrow> game \<Rightarrow> exn + (obj \<times> game)" where
  "Shop_from_dict data g =
     and_then (and_then (get data ''inventory'' (JList [])) iterate) (\<lambda>ds.
     and_then (create_stock ds g) (\<lambda>(catalog, g1).
     and_then (and_then (getitem data ''x'') as_int) (\<lambda>x.
     and_then (and_then (getitem data ''y'') as_int) (\<lambda>y.
     and_then (and_then (getitem data ''name'') as_str) (\<lambda>nm.
     and_then (and_then (get data ''shop_type'' (JStr ''General'')) as_str) (\<lambda>ty.
     Inr ((Shop_init x y nm catalog ty)\<lparr>obj_char := SHOP_CHAR\<rparr>, g1)))))))"

definition Vehicle_from_dict :: "json \<Rightarrow> exn + obj" where
  "Vehicle_from_dict data =
     and_then (and_then (getitem data ''x'') as_int) (\<lambda>x.
     and_then (and_then (getitem data ''y'') as_int) (\<lambda>y.
     and_then (and_then (getitem data ''name'') as_str) (\<lambda>nm.
     and_then (and_then (get data ''health'' (JInt 100)) as_int) (\<lambda>h.
     and_then (and_then (get data ''speed'' (JInt 1)) as_int) (\<lambda>sp.
     and_then (and_then (get data ''char'' (JStr VEHICLE_CHAR)) as_str) (\<lambda>ch.
     and_then (and_then (get data ''max_health'' (JInt h)) as_int) (\<lambda>mh.
     Inr ((Vehicle_init x y nm h sp ch)\<lparr>max_health := mh, occupant := None,
            obj_char := VEHICLE_CHAR\<rparr>))))))))"

text \<open>
  \<^verbatim>\<open>v in self.missions\<close> and \<^verbatim>\<open>self.missions[v]\<close> behind the truth test of \<open>v\<close>: a list or
  a dictionary is unhashable, any other value that is not a key is simply absent.
\<close>

definition mission_named :: "game \<Rightarrow> json \<Rightarrow> exn + mission option" where
  "mission_named g v =
     (if \<not> truthy v then Inr None
      else case v of
        JStr s \<Rightarrow> Inr (map_of (missions g) s)
      | JList vs \<Rightarrow> Inl TypeError
      | JObj kvs \<Rightarrow> Inl TypeError
      | _ \<Rightarrow> Inr None)"

definition load_npc :: "string \<times> json \<Rightarrow> game \<Rightarrow> exn + game" where
  "load_npc entry g =
     (case entry of (k, npc_data) \<Rightarrow>
        and_then (get npc_data ''type'' JNull) (\<lambda>ty.
        and_then (if ty = JStr ''BigSmoke'' then BigSmoke_from_dict npc_data g
                  else NPC_from_dict npc_data g) (\<lambda>(ob, g1).
        case new ob g1 of (n, g2) \<Rightarrow>
          (let g3 = add_object n (as_npc k n g2)
           in and_then (get npc_data ''mission_offered'' JNull) (\<lambda>mo.
              and_then (mission_named g3 mo) (\<lambda>m.
                case m of
                  None \<Rightarrow> Inr g3
                | Some mi \<Rightarrow> Inr (upd n (\<lambda>a. a\<lparr>mission_offered := Some mi\<rparr>) g3)))))))"

definition load_shop :: "string \<times> json \<Rightarrow> game \<Rightarrow> exn + game" where
  "load_shop entry g =
     (case entry of (k, shop_data) \<Rightarrow>
        and_then (Shop_from_dict shop_data g) (\<lambda>(ob, g1).
        case new ob g1 of (r, g2) \<Rightarrow> Inr (add_object r (as_shop k r g2))))"

definition load_enemy :: "string \<times> json \<Rightarrow> game \<Rightarrow> exn + game" where
  "load_enemy entry g =
     (case entry of (k, enemy_data) \<Rightarrow>
        and_then (Enemy_from_dict enemy_data g) (\<lambda>(ob, g1).
        case new ob g1 of (r, g2) \<Rightarrow> Inr (add_object r (as_enemy k r g2))))"

definition load_vehicle :: "string \<times> json \<Rightarrow> game \<Rightarrow> exn + game" where
  "load_vehicle entry g =
     (case entry of (k, vehicle_data) \<Rightarrow>
        and_then (Vehicle_from_dict vehicle_data) (\<lambda>ob.
        case new ob g of (v, g1) \<Rightarrow>
          (let g2 = add_object v (as_vehicle k v g1)
           in and_then (get vehicle_data ''occupant'' JNull) (\<lambda>oc.
                if oc = JStr (obj_name (heap g2 (player g2)))
                then Inr (upd (player g2) (\<lambda>a. a\<lparr>current_vehicle := Some v\<rparr>)
                            (upd v (\<lambda>a. a\<lparr>occupant := Some (player g2)\<rparr>) g2))
                else Inr g2))))"

definition load_item :: "json \<Rightarrow> game \<Rightarrow> exn + game" where
  "load_item item_data g =
     and_then (create_item_from_dict item_data) (\<lambda>ob.
       case new ob g of (r, g1) \<Rightarrow> Inr (as_item (obj_name ob) r (add_object r g1)))"

text \<open>
  The body of the \<^verbatim>\<open>try\<close> of \<^verbatim>\<open>load_game\<close>, after the file has been read and parsed. The
  value under \<^verbatim>\<open>game_time\<close> is stored as it is and meets the typed attribute of the model
  only once the player has been rebuilt.
\<close>

definition load_body :: "json \<Rightarrow> game \<Rightarrow> exn + (json \<times> game)" where
  "load_body data g =
     and_then (get data ''version'' (JInt 1)) (\<lambda>saved_version.
     and_then (get data ''game_time'' (JInt 0)) (\<lambda>game_time_value.
     and_then (getitem data ''player'') (\<lambda>player_data.
     and_then (Player_from_dict player_data
                 (g\<lparr>objects := [], npcs := [], items := [], shops := [], enemies := [],
                    vehicles := []\<rparr>)) (\<lambda>(pob, g0).
     and_then (as_int game_time_value) (\<lambda>gt.
     case new pob (g0\<lparr>game_time := gt\<rparr>) of (p, g2) \<Rightarrow>
     and_then (and_then (get data ''npcs'' (JObj [])) dict_items) (\<lambda>npc_entries.
     and_then (for_each npc_entries load_npc (add_object p (g2\<lparr>player := p\<rparr>))) (\<lambda>g3.
     and_then (and_then (get data ''shops'' (JObj [])) dict_items) (\<lambda>shop_entries.
     and_then (for_each shop_entries load_shop g3) (\<lambda>g4.
     and_then (and_then (get data ''enemies'' (JObj [])) dict_items) (\<lambda>enemy_entries.
     and_then (for_each enemy_entries load_enemy g4) (\<lambda>g5.
     and_then (and_then (get data ''vehicles'' (JObj [])) dict_items) (\<lambda>vehicle_entries.
     and_then (for_each vehicle_entries load_vehicle g5) (\<lambda>g6.
     and_then (and_then (get data ''items_on_map'' (JList [])) iterate) (\<lambda>item_entries.
     and_then (for_each item_entries load_item g6) (\<lambda>g7.
     and_then (get player_data ''current_mission'' JNull) (\<lambda>cm.
     and_then (mission_named g7 cm) (\<lambda>m.
       case m of
         None \<Rightarrow> Inr (saved_version, g7)
       | Some mi \<Rightarrow> Inr (saved_version, upd p (\<lambda>a. a\<lparr>current_mission := Some mi\<rparr>) g7)
     )))))))))))))))))"

definition read_save :: "game \<Rightarrow> exn + json" where
  "read_save g =
     (case disk g of
        Missing \<Rightarrow> Inl FileNotFoundError
      | Unreadable \<Rightarrow> Inl OSError
      | Malformed \<Rightarrow> Inl JSONDecodeError
      | Document data \<Rightarrow> Inr data)"

text \<open>What \<^verbatim>\<open>load_game\<close> prints at its end: success, or which handler ran.\<close>

datatype load_report =
  Loaded json           \<comment> \<open>"Game loaded successfully", with the save version\<close>
  | NotFound            \<comment> \<open>"Save file ... not found. Starting new game."\<close>
  | Corrupted           \<comment> \<open>"Error decoding save file. ... Starting new game."\<close>
  | Unexpected exn      \<comment> \<open>"An unexpected error occurred while loading game ... Starting new game."\<close>

text \<open>The three handlers: report, then \<^verbatim>\<open>self._initialized = False; self.__init__()\<close>.\<close>

definition start_new_game :: "load_report \<Rightarrow> game \<Rightarrow> exn + (load_report \<times> game)" where
  "start_new_game rep g = and_then (Game_init g) (\<lambda>g'. Inr (rep, g'))"

definition load_game :: "game \<Rightarrow> exn + (load_report \<times> game)" where
  "load_game g =
     (case and_then (read_save g) (\<lambda>data. load_body data g) of
        Inr (saved_version, g') \<Rightarrow> Inr (Loaded saved_version, g')
      | Inl FileNotFoundError \<Rightarrow> start_new_game NotFound g
      | Inl JSONDecodeError \<Rightarrow> start_new_game Corrupted g
      | Inl e \<Rightarrow> start_new_game (Unexpected e) g)"

subsection \<open>Commands: \<^verbatim>\<open>handle_input\<close>\<close>

text \<open>
  The eight neighbour offsets in the order of the nested loops \<^verbatim>\<open>for dy in range(-1, 2):
  for dx in range(-1, 2)\<close>, the player's own cell skipped.
\<close>

definition neighbours :: "(int \<times> int) list" where
  "neighbours = [(dx, dy). dy \<leftarrow> [- 1, 0, 1], dx \<leftarrow> [- 1, 0, 1], \<not> (dx = 0 \<and> dy = 0)]"

definition prereqs_met :: "mission \<Rightarrow> obj \<Rightarrow> bool" where
  "prereqs_met m pl =
     list_all (\<lambda>prereq_name. prereq_name \<in> set (missions_completed pl)) (prerequisite_missions m)"

text \<open>
  The body of \<^verbatim>\<open>if obj:\<close> in the interact command, for the object found in one
  neighbour cell. The boolean is \<^verbatim>\<open>interacted\<close>: true ends the scan. An NPC that offers
  a mission is talked to only when all prerequisites of that mission are completed;
  otherwise nothing happens and the scan goes on.
\<close>

definition interact :: "ref \<Rightarrow> ref \<Rightarrow> game \<Rightarrow> exn + (bool \<times> game)" where
  "interact ob p g =
     (if isinstance (heap g ob) NPC
      then
        (case mission_offered (heap g ob) of
           Some m \<Rightarrow>
             if prereqs_met m (heap g p)
             then and_then (talk ob p g) (\<lambda>g'. Inr (True, g'))
             else Inr (False, g)
         | None \<Rightarrow> and_then (talk ob p g) (\<lambda>g'. Inr (True, g')))
      else if isinstance (heap g ob) Item
      then Inr (True, remove_object ob (add_item p ob g))
      else if isinstance (heap g ob) Shop
      then and_then (Shop_enter ob p g) (\<lambda>g'. Inr (True, g'))
      else if isinstance (heap g ob) Vehicle \<and> current_vehicle (heap g p) = None
      then Inr (Vehicle_enter ob p g)
      else Inr (False, g))"

fun scan :: "(int \<times> int) list \<Rightarrow> int \<Rightarrow> int \<Rightarrow> ref \<Rightarrow> game \<Rightarrow> exn + (bool \<times> game)" where
  "scan [] current_x current_y p g = Inr (False, g)"
| "scan (d # rest) current_x current_y p g =
     (case get_object_at g (current_x + fst d) (current_y + snd d) of
        None \<Rightarrow> scan rest current_x current_y p g
      | Some ob \<Rightarrow>
          (case interact ob p g of
             Inl e \<Rightarrow> Inl e
           | Inr (True, g') \<Rightarrow> Inr (True, g')
           | Inr (False, g') \<Rightarrow> scan rest current_x current_y p g'))"

text \<open>
  The use-item command. The boolean tells whether \<^verbatim>\<open>handle_input\<close> goes on to its last
  line (\<^verbatim>\<open>discover_area\<close>) or has returned early.
\<close>

definition use_item :: "ref \<Rightarrow> game \<Rightarrow> exn + (bool \<times> game)" where
  "use_item p g =
     (if inventory (heap g p) = [] then Inr (False, g)
      else and_then (input g) (\<lambda>(choice, g1).
        if choice = ''0'' then Inr (False, g1)
        else case py_int choice of
          None \<Rightarrow> Inr (True, g1)
        | Some n \<Rightarrow>
            if 1 \<le> n \<and> n \<le> int (length (inventory (heap g1 p)))
            then
              (let selected_item = inventory (heap g1 p) ! nat (n - 1);
                   it = heap g1 selected_item
               in if isinstance it HealthPack
                  then Inr (True, snd (remove_item p selected_item (heal p (heal_amount it) g1)))
                  else if isinstance it Weapon
                  then Inr (True, equip_weapon p selected_item g1)
                  else if isinstance it Food
                  then Inr (True, snd (remove_item p selected_item
                         (upd p (\<lambda>a. a\<lparr>hunger := clamp (hunger a + hunger_restore it) 0 100\<rparr>) g1)))
                  else if isinstance it Drink
                  then Inr (True, snd (remove_item p selected_item
                         (upd p (\<lambda>a. a\<lparr>thirst := clamp (thirst a + thirst_restore it) 0 100\<rparr>) g1)))
                  else Inr (True, g1))
            else Inr (True, g1)))"

text \<open>
  The attack command. The target is the object \<^verbatim>\<open>get_object_at\<close> returns for the first
  neighbour cell where that object is an \<^verbatim>\<open>Enemy\<close>.
\<close>

fun find_enemy :: "(int \<times> int) list \<Rightarrow> ref \<Rightarrow> game \<Rightarrow> ref option" where
  "find_enemy [] p g = None"
| "find_enemy (d # rest) p g =
     (case get_object_at g (obj_x (heap g p) + fst d) (obj_y (heap g p) + snd d) of
        None \<Rightarrow> find_enemy rest p g
      | Some ob \<Rightarrow> if isinstance (heap g ob) Enemy then Some ob else find_enemy rest p g)"

text \<open>
  \<^verbatim>\<open>for name, enemy_obj in list(self.enemies.items()): if enemy_obj == target_enemy:
  del self.enemies[name]; break\<close>.
\<close>

definition forget_enemy :: "ref \<Rightarrow> game \<Rightarrow> game" where
  "forget_enemy t g =
     (case find (\<lambda>kv. snd kv = t) (enemies g) of
        None \<Rightarrow> g
      | Some kv \<Rightarrow> g\<lparr>enemies := AList.delete (fst kv) (enemies g)\<rparr>)"

definition attack :: "ref \<Rightarrow> game \<Rightarrow> game" where
  "attack p g =
     (case find_enemy neighbours p g of
        None \<Rightarrow> g
      | Some target_enemy \<Rightarrow>
          (case Character_f p target_enemy g of
             (False, g1) \<Rightarrow> g1
           | (True, g1) \<Rightarrow>
               (let g2 = forget_enemy target_enemy (remove_object target_enemy g1)
                in if faction (heap g2 target_enemy) = ''Police''
                   then add_wanted_level p 2 g2
                   else add_wanted_level p 1 g2)))"

text \<open>
  \<^verbatim>\<open>handle_input(key)\<close>. \<^verbatim>\<open>player\<close> is bound to \<^verbatim>\<open>self.player\<close> at entry; the quit command
  returns before the final \<^verbatim>\<open>player.discover_area\<close>, the use-item command returns early
  on an empty inventory or a cancelled choice. After the load command \<^verbatim>\<open>self.player\<close> is
  a new object, so the final \<^verbatim>\<open>discover_area\<close> runs on the old player object, which the
  new world does not hold: only an exception of it is seen.
\<close>

definition handle_input :: "string \<Rightarrow> game \<Rightarrow> exn + game" where
  "handle_input key g =
     (let p = player g
      in if key = ''e''
         then and_then (scan neighbours (obj_x (heap g p)) (obj_y (heap g p)) p g)
                (\<lambda>(interacted, g1). discover_area p g1)
         else if key = ''x''
         then discover_area p
                (case current_vehicle (heap g p) of
                   Some v \<Rightarrow> snd (Vehicle_exit v p g)
                 | None \<Rightarrow> g)
         else if key = ''u''
         then and_then (use_item p g) (\<lambda>(go_on, g1). if go_on then discover_area p g1 else Inr g1)
         else if key = ''f'' then discover_area p (attack p g)
         else if key = ''v'' then discover_area p (save_game g)
         else if key = ''l''
         then and_then (load_game g) (\<lambda>(rep, g1).
                and_then (discover_map (heap g p)) (\<lambda>old_player. Inr g1))
         else if key = ''q'' then Inr (g\<lparr>running := False\<rparr>)
         else if key = ''w'' then discover_area p (snd (Player_move p 0 (- 1) g))
         else if key = ''s'' then discover_area p (snd (Player_move p 0 1 g))
         else if key = ''a'' then discover_area p (snd (Player_move p (- 1) 0 g))
         else if key = ''d'' then discover_area p (snd (Player_move p 1 0 g))
         else discover_area p g)"

subsection \<open>The turn loop\<close>

definition randint :: "int \<Rightarrow> int \<Rightarrow> game \<Rightarrow> int \<times> game" where
  "randint a b g = (case randbelow (nat (b - a + 1)) g of (k, g') \<Rightarrow> (a + int k, g'))"

text \<open>One round of the \<^verbatim>\<open>for\<close> loop of \<^verbatim>\<open>spawn_police\<close>.\<close>

definition spawn_one :: "game \<Rightarrow> game" where
  "spawn_one g =
     (case randint (- 5) 5 g of (rx, g1) \<Rightarrow>
      case randint (- 5) 5 g1 of (ry, g2) \<Rightarrow>
        (let pl = heap g2 (player g2);
             spawn_x = clamp (obj_x pl + rx) 0 (MAP_WIDTH - 1);
             spawn_y = clamp (obj_y pl + ry) 0 (MAP_HEIGHT - 1)
         in if get_object_at g2 spawn_x spawn_y = None
            then place (Enemy_init spawn_x spawn_y ''Police Officer''
                          (60 + wanted_level pl * 10) (15 + wanted_level pl * 5) ''Police'')
                   (as_enemy (''police_'' @ str_nat (length (enemies g2)))) g2
            else g2))"

definition spawn_police :: "game \<Rightarrow> game" where
  "spawn_police g =
     (if wanted_level (heap g (player g)) > 0
      then (spawn_one ^^ nat (wanted_level (heap g (player g)))) g
      else g)"

text \<open>
  \<^verbatim>\<open>for enemy in list(self.enemies.values()): if enemy.health > 0:
  enemy.take_turn(self.player, self.game_map)\<close>.
\<close>

definition enemy_turns :: "game \<Rightarrow> game" where
  "enemy_turns g =
     fold (\<lambda>e g'. if health (heap g' e) > 0 then take_turn e (player g') g' else g')
       (map snd (enemies g)) g"

text \<open>
  The periodic effects at the head of a pass, each gated by the tick counter: needs
  decay every 10 ticks, wanted-level decay every 50, police reinforcements every 20.
\<close>

definition periodic_effects :: "game \<Rightarrow> game" where
  "periodic_effects g =
     (let g1 = (if game_time g mod 10 = 0 then update_needs (player g) g else g);
          g2 = (if wanted_level (heap g1 (player g1)) > 0 \<and> game_time g1 mod 50 = 0
                then reduce_wanted_level (player g1) 1 g1 else g1)
      in if wanted_level (heap g2 (player g2)) > 0 \<and> game_time g2 mod 20 = 0
         then spawn_police g2 else g2)"

text \<open>
  One pass through the body of \<^verbatim>\<open>while self.running\<close>. The boolean is false when the
  body left the loop by \<^verbatim>\<open>break\<close> (the defeat test), true when it ran to its end and the
  loop condition is tested next.
\<close>

definition tick :: "game \<Rightarrow> exn + (bool \<times> game)" where
  "tick g =
     and_then (render g (player g)) (\<lambda>u.
       if health (heap g (player g)) \<le> 0 then Inr (False, g\<lparr>running := False\<rparr>)
       else
         and_then (input (periodic_effects g)) (\<lambda>(action, g4).
         and_then (handle_input (lower action) g4) (\<lambda>g5.
           (let g6 = enemy_turns g5 in Inr (True, g6\<lparr>game_time := game_time g6 + 1\<rparr>)))))"

text \<open>
  The \<^verbatim>\<open>while\<close> loop with a bound on the number of passes; \<open>None\<close> means the bound was
  reached with the loop still running. Every pass that does not end the loop reads a
  line, so one pass more than there are lines of input is enough.
\<close>

fun loop :: "nat \<Rightarrow> game \<Rightarrow> exn + game option" where
  "loop 0 g = (if \<not> running g then Inr (Some g) else Inr None)"
| "loop (Suc k) g =
     (if \<not> running g then Inr (Some g)
      else case tick g of
        Inl e \<Rightarrow> Inl e
      | Inr (False, g') \<Rightarrow> Inr (Some g')
      | Inr (True, g') \<Rightarrow> loop k g')"

text \<open>
  \<^verbatim>\<open>game_loop\<close>: the initial discovery, the initial police spawn of a game that starts
  wanted, then the loop.
\<close>

definition game_loop :: "game \<Rightarrow> exn + game option" where
  "game_loop g =
     and_then (discover_area (player g) g) (\<lambda>g1.
       loop (Suc (length (stdin g1)))
         (if wanted_level (heap g1 (player g1)) > 0 then spawn_police g1 else g1))"

text \<open>A computation that returns normally with a result satisfying \<open>P\<close>.\<close>

definition returns :: "exn + 'a \<Rightarrow> ('a \<Rightarrow> bool) \<Rightarrow> bool" where
  "returns m P = (case m of Inl e \<Rightarrow> False | Inr v \<Rightarrow> P v)"

text \<open>The world of a new game in a given environment (\<open>Game_init\<close> never raises).\<close>

definition new_world :: "game \<Rightarrow> game" where
  "new_world env = (case Game_init env of Inr g \<Rightarrow> g | Inl e \<Rightarrow> empty_world env)"

text \<open>An environment for examples: no input, a constant random source, no save file.\<close>

definition quiet :: game where
  "quiet =
     \<lparr> heap = (\<lambda>r. blank GameObject), next_ref = 0, objects = [], map_width = MAP_WIDTH,
       map_height = MAP_HEIGHT, player = 0, running = True, game_time = 0, npcs = [],
       items = [], shops = [], enemies = [], vehicles = [], missions = [], stdin = [],
       random = (\<lambda>k. 0), disk = Missing, disk_writable = True \<rparr>"

text \<open>
  A save document in the shape of an older version: only the player, without stamina,
  needs, wanted level, version or game time.
\<close>

definition old_save :: json where
  "old_save =
     JObj [(''player'',
       JObj [ (''x'', JInt 3), (''y'', JInt 4), (''char'', JStr ''C''), (''name'', JStr ''CJ''),
              (''health'', JInt 50), (''money'', JInt 20), (''inventory'', JList []) ])]"

text \<open>
  Example states, each the new game with a few attributes changed. In the first the
  player sits in the Police Car (object 19) at the right edge of the map; in the second
  in the Green Sabre (object 18) just left of Sweet, who stands at \<open>(5, 5)\<close>.
\<close>

definition car_at_edge :: game where
  "car_at_edge =
     upd 0 (\<lambda>a. a\<lparr>obj_x := 79, obj_y := 15, current_vehicle := Some 19\<rparr>)
       (upd 19 (\<lambda>a. a\<lparr>obj_x := 79, obj_y := 15, occupant := Some 0\<rparr>) (new_world quiet))"

definition car_beside_sweet :: game where
  "car_beside_sweet =
     upd 0 (\<lambda>a. a\<lparr>obj_x := 4, obj_y := 5, current_vehicle := Some 18\<rparr>)
       (upd 18 (\<lambda>a. a\<lparr>obj_x := 4, obj_y := 5, occupant := Some 0\<rparr>) (new_world quiet))"

text \<open>
  Big Smoke (object 3) stands at \<open>(20, 15)\<close> and so also fills \<open>(21, 15)\<close>. The first
  gangster (object 15) has wandered next to him: to \<open>(22, 15)\<close>, with a random source
  whose shuffle puts the step \<open>(-1, 0)\<close> first, and to \<open>(22, 16)\<close>.
\<close>

definition gangster_right_of_smoke :: game where
  "gangster_right_of_smoke =
     upd 15 (\<lambda>a. a\<lparr>obj_x := 22, obj_y := 15\<rparr>)
       ((new_world quiet)\<lparr>random := (\<lambda>k. if k = 1 then 2 else if k = 2 then 1 else 0)\<rparr>)"

definition gangster_below_smoke :: game where
  "gangster_below_smoke = upd 15 (\<lambda>a. a\<lparr>obj_x := 22, obj_y := 16\<rparr>) (new_world quiet)"

text \<open>
  The Police Officer (object 17), worn down to 5 health, stands right of the player, who
  has no weapon and no wanted level.
\<close>

definition officer_beside_player :: game where
  "officer_beside_player =
     upd 17 (\<lambda>a. a\<lparr>obj_x := 41, obj_y := 12, health := 5\<rparr>) (new_world quiet)"

text \<open>The player has completed the three missions; one line of input is waiting.\<close>

definition all_missions_done :: game where
  "all_missions_done =
     upd 0 (\<lambda>a. a\<lparr>missions_completed :=
                    [''Sweet's Mission'', ''Ryder's Mission'', ''Big Smoke's Mission'']\<rparr>)
       ((new_world quiet)\<lparr>stdin := [''i'']\<rparr>)"

text \<open>The new game after the player has picked up the Pistol (object 4).\<close>

definition holding_pistol :: game where
  "holding_pistol = remove_object 4 (add_item 0 4 (new_world quiet))"

text \<open>A new game in which the player answers the next prompt with \<^verbatim>\<open>Yes\<close>.\<close>

definition says_yes :: game where
  "says_yes = (new_world quiet)\<lparr>stdin := [''Yes'']\<rparr>"

text \<open>A new game whose player types the quit command at once, in upper case.\<close>

definition quits_at_once :: game where
  "quits_at_once = (new_world quiet)\<lparr>stdin := [''Q'']\<rparr>"

text \<open>
  What a step does to the loop's control: \<open>io\<close> is the input still to be read together
  with the \<^verbatim>\<open>running\<close> flag, and \<open>reads g g'\<close> says that from \<open>g\<close> to \<open>g'\<close> some lines
  (possibly none) were read and the flag was left alone.
\<close>

definition io :: "game \<Rightarrow> string list \<times> bool" where
  "io g = (stdin g, running g)"

definition reads :: "game \<Rightarrow> game \<Rightarrow> bool" where
  "reads g g' = (running g' = running g \<and> (\<exists>pre. stdin g = pre @ stdin g'))"

section \<open>Theorems\<close>

subsection \<open>Sequencing\<close>

lemma and_then_Inr_iff: "and_then m k = Inr v \<longleftrightarrow> (\<exists>a. m = Inr a \<and> k a = Inr v)"
  by (cases m) (simp_all add: and_then_def)

lemma and_then_Inl_iff:
  "and_then m k = Inl e \<longleftrightarrow> (m = Inl e \<or> (\<exists>a. m = Inr a \<and> k a = Inl e))"
  by (cases m) (simp_all add: and_then_def)

subsection \<open>The new game\<close>

lemmas init_defs = Game_init_def initialize_missions_def assign_mission_def
  initialize_game_objects_def place_def place_shop_def new_def add_object_def as_npc_def
  as_item_def as_shop_def as_enemy_def as_vehicle_def empty_world_def upd_def

lemma Game_init_returns: "\<exists>g. Game_init env = Inr g"
  by (simp add: init_defs and_then_def Let_def)

lemma Game_init_ok: "Game_init env = Inr (new_world env)"
  using Game_init_returns [of env] by (auto simp: new_world_def)

lemma new_world_player: "player (new_world env) = 0"
  and new_world_running: "running (new_world env)"
  and new_world_game_time: "game_time (new_world env) = 0"
  and new_world_stdin: "stdin (new_world env) = stdin env"
  and new_world_objects:
    "objects (new_world env) = [0, 1, 2, 3, 4, 5, 6, 7, 11, 14, 15, 16, 17, 18, 19]"
  by (simp_all add: new_world_def init_defs and_then_def Let_def)

lemma new_world_cj: "heap (new_world env) 0 = Player_init 40 12"
  by (simp add: new_world_def init_defs and_then_def Let_def MAP_WIDTH_def MAP_HEIGHT_def)

subsection \<open>Loading never succeeds\<close>

text \<open>
  \<^verbatim>\<open>Player.from_dict\<close> calls \<^verbatim>\<open>Character.from_dict\<close> through \<^verbatim>\<open>super()\<close> with \<^verbatim>\<open>cls = Player\<close>,
  and that constructs \<^verbatim>\<open>cls\<close> with seven positional arguments while \<^verbatim>\<open>Player.__init__\<close>
  takes two: whatever the document, the player is never rebuilt.
\<close>

lemma Character_from_dict_Player: "Character_from_dict Player data g \<noteq> Inr r"
  by (auto simp: Character_from_dict_def and_then_Inr_iff accepts_def)

lemma Player_from_dict_fails: "Player_from_dict data g \<noteq> Inr r"
  by (auto simp: Player_from_dict_def and_then_Inr_iff Character_from_dict_Player)

lemma load_body_fails: "load_body data g \<noteq> Inr r"
  by (auto simp: load_body_def and_then_Inr_iff Player_from_dict_fails)

lemma load_game_restarts:
  "\<exists>rep. load_game g = Inr (rep, new_world g) \<and> (\<forall>v. rep \<noteq> Loaded v)"
proof (cases "and_then (read_save g) (\<lambda>data. load_body data g)")
  case (Inl e)
  then show ?thesis
    by (cases e) (simp_all add: load_game_def start_new_game_def Game_init_ok and_then_def)
next
  case (Inr r)
  then show ?thesis by (auto simp: and_then_Inr_iff load_body_fails)
qed

lemma as_int_JInt: "as_int (JInt i) = Inr i"
  by (simp add: as_int_def JInt_def)

lemma as_rat_JInt: "as_rat (JInt i) = Inr (of_int i)"
  by (simp add: as_rat_def JInt_def)

lemma save_data_player:
  "getitem (save_data g) ''player'' = Inr (Player_to_dict g (heap g (player g)))"
  by (simp add: save_data_def getitem_def)

lemma Character_from_saved:
  "Character_from_dict Player (Player_to_dict g ob) g' = Inl TypeError"
  by (simp add: Character_from_dict_def Player_to_dict_def Character_to_dict_def
      GameObject_to_dict_def dict_update_def getitem_def get_def and_then_def as_int_JInt
      as_str_def as_rat_def accepts_def)

lemma load_body_saved: "load_body (save_data g) g' = Inl TypeError"
  by (simp add: load_body_def save_data_player Player_from_dict_def Character_from_saved
      and_then_def get_def as_int_JInt) (simp add: save_data_def as_int_JInt)

lemma load_after_save:
  "disk_writable g \<Longrightarrow>
   load_game (save_game g) = Inr (Unexpected TypeError, new_world (save_game g))"
  by (simp add: load_game_def save_game_def read_save_def load_body_saved and_then_def
      start_new_game_def Game_init_ok)

subsection \<open>The map and the attack\<close>

lemma get_object_at_Some: "get_object_at g x y = Some ob \<Longrightarrow> ob \<in> set (objects g)"
  by (auto simp: get_object_at_def find_Some_iff)

lemma find_enemy_Some:
  "find_enemy ds p g = Some t \<Longrightarrow> isinstance (heap g t) Enemy \<and> t \<in> set (objects g)"
  by (induction ds) (auto split: option.splits if_splits dest: get_object_at_Some)

lemma discover_area_Inr:
  "discover_area p g = Inr g' \<Longrightarrow> \<exists>dm. g' = upd p (\<lambda>a. a\<lparr>discovered_map := dm\<rparr>) g"
  by (auto simp: discover_area_def discover_map_def and_then_Inr_iff upd_def)

lemma forget_enemy_gone:
  assumes "distinct (map snd es)"
  shows "t \<notin> snd ` set (case find (\<lambda>kv. snd kv = t) es of None \<Rightarrow> es
                           | Some kv \<Rightarrow> AList.delete (fst kv) es)"
  using assms
proof (induction es)
  case Nil
  then show ?case by simp
next
  case (Cons e es)
  show ?case
  proof (cases "snd e = t")
    case True
    with Cons.prems show ?thesis
      by (auto simp: AList.delete_eq image_iff)
  next
    case False
    with Cons show ?thesis
      by (auto simp: AList.delete_eq image_iff split: option.splits)
  qed
qed

lemma attack_defeated:
  assumes target: "find_enemy neighbours p g = Some t"
    and defeated: "fst (Character_f p t g)"
    and other: "t \<noteq> p"
  shows "attack p g =
           add_wanted_level p (if faction (heap g t) = ''Police'' then 2 else 1)
             (forget_enemy t (remove_object t (snd (Character_f p t g))))"
  using assms
  by (auto simp: attack_def Let_def forget_enemy_def remove_object_def Character_f_def
      Character_take_damage_def take_damage_def upd_def split: prod.splits option.splits)

subsection \<open>What leaves the input and the running flag alone\<close>

lemma io_reads: "io g' = io g \<Longrightarrow> reads g g'"
  by (simp add: io_def reads_def)

lemma reads_trans: "reads g g1 \<Longrightarrow> reads g1 g2 \<Longrightarrow> reads g g2"
  by (auto simp: reads_def)

lemma reads_io: "reads g g1 \<Longrightarrow> io g2 = io g1 \<Longrightarrow> reads g g2"
  by (auto simp: reads_def io_def)

lemma io_upd [simp]: "io (upd r h g) = io g"
  by (simp add: io_def upd_def)

lemma io_heap_update [simp]: "io (g\<lparr>heap := h\<rparr>) = io g"
  and io_objects_update [simp]: "io (g\<lparr>objects := os\<rparr>) = io g"
  and io_enemies_update [simp]: "io (g\<lparr>enemies := es\<rparr>) = io g"
  and io_random_update [simp]: "io (g\<lparr>random := rs\<rparr>) = io g"
  and io_next_ref_update [simp]: "io (g\<lparr>next_ref := k\<rparr>) = io g"
  and io_disk_update [simp]: "io (g\<lparr>disk := d\<rparr>) = io g"
  and io_game_time_update [simp]: "io (g\<lparr>game_time := t\<rparr>) = io g"
  by (simp_all add: io_def)

lemma io_basic [simp]:
  "io (add_object r g) = io g"
  "io (remove_object r g) = io g"
  "io (add_item c it g) = io g"
  "io (snd (remove_item c it g)) = io g"
  "io (heal c n g) = io g"
  "io (equip_weapon c w g) = io g"
  "io (snd (Character_take_damage c n g)) = io g"
  "io (snd (Character_f c t g)) = io g"
  "io (add_wanted_level c a g) = io g"
  "io (reduce_wanted_level c a g) = io g"
  "io (update_needs c g) = io g"
  "io (snd (Vehicle_enter v c g)) = io g"
  "io (snd (Vehicle_exit v c g)) = io g"
  "io (snd (Vehicle_move v dx dy c g)) = io g"
  "io (snd (Player_move c dx dy g)) = io g"
  "io (step_to c d g) = io g"
  "io (forget_enemy c g) = io g"
  "io (save_game g) = io g"
  "io (snd (new ob g)) = io g"
  "io (snd (randbelow k g)) = io g"
  "io (snd (randint a b g)) = io g"
  "io (as_enemy key r g) = io g"
  "io (complete m c g) = io g"
  "io (finish_mission r m c g) = io g"
  by (simp_all add: add_object_def remove_object_def add_item_def remove_item_def heal_def
      equip_weapon_def Character_take_damage_def Character_f_def add_wanted_level_def
      reduce_wanted_level_def update_needs_def Vehicle_enter_def Vehicle_exit_def
      Vehicle_move_def Player_move_def step_to_def forget_enemy_def save_game_def new_def
      randbelow_def randint_def as_enemy_def complete_def finish_mission_def Let_def
      split: option.splits prod.splits)

lemma io_pair: "F = (b, g') \<Longrightarrow> io (snd F) = io g \<Longrightarrow> io g' = io g"
  by simp

lemma io_attack [simp]: "io (attack p g) = io g"
  by (auto simp: attack_def Let_def split: option.splits prod.splits bool.splits
      dest: io_pair [OF _ io_basic(8)])

lemma io_shuffle_fold:
  "io (snd (fold (\<lambda>i (ys, g'). case randbelow (Suc i) g' of (j, g'') \<Rightarrow> (swap i j ys, g''))
              ns (xs, g))) = io g"
proof (induction ns arbitrary: xs g)
  case Nil
  then show ?case by simp
next
  case (Cons n ns)
  obtain j g1 where r: "randbelow (Suc n) g = (j, g1)" by (cases "randbelow (Suc n) g")
  have "io g1 = io g" using io_basic(20) [of "Suc n" g] r by simp
  with Cons.IH [of "swap n j xs" g1] r show ?case by simp
qed

lemma io_shuffle [simp]: "io (snd (shuffle xs g)) = io g"
  by (simp add: shuffle_def io_shuffle_fold)

lemma io_move_randomly [simp]: "io (snd (move_randomly e g)) = io g"
proof -
  obtain ms g1 where s: "shuffle [(0::int, 1::int), (0, - 1), (1, 0), (- 1, 0)] g = (ms, g1)"
    by (cases "shuffle [(0::int, 1::int), (0, - 1), (1, 0), (- 1, 0)] g")
  have "io g1 = io g" by (rule io_pair [OF s io_shuffle])
  then show ?thesis by (simp add: move_randomly_def s split: option.splits)
qed

lemma io_move_towards [simp]: "io (snd (move_towards e tx ty g)) = io g"
  by (simp add: move_towards_def Let_def)

lemma io_take_turn [simp]: "io (take_turn e p g) = io g"
proof -
  obtain b g1 where m: "move_towards e (obj_x (heap g p)) (obj_y (heap g p)) g = (b, g1)"
    by (cases "move_towards e (obj_x (heap g p)) (obj_y (heap g p)) g")
  have "io g1 = io g" using io_move_towards [of e "obj_x (heap g p)" "obj_y (heap g p)" g] m by simp
  then show ?thesis by (simp add: take_turn_def Let_def m split: bool.splits)
qed

lemma io_enemy_turns_fold:
  "io (fold (\<lambda>e g'. if health (heap g' e) > 0 then take_turn e (player g') g' else g') es g) = io g"
  by (induction es arbitrary: g) simp_all

lemma io_enemy_turns [simp]: "io (enemy_turns g) = io g"
  by (simp add: enemy_turns_def io_enemy_turns_fold)

lemma io_place [simp]: "(\<And>r g'. io (file_it r g') = io g') \<Longrightarrow> io (place ob file_it g) = io g"
  by (simp add: place_def new_def add_object_def io_def)

lemma io_spawn_one [simp]: "io (spawn_one g) = io g"
proof -
  obtain rx g1 where a: "randint (- 5) 5 g = (rx, g1)" by (cases "randint (- 5) 5 g")
  obtain ry g2 where b: "randint (- 5) 5 g1 = (ry, g2)" by (cases "randint (- 5) 5 g1")
  have "io g1 = io g" using io_basic(21) [of "- 5" 5 g] a by simp
  moreover have "io g2 = io g1" using io_basic(21) [of "- 5" 5 g1] b by simp
  ultimately show ?thesis by (simp add: spawn_one_def a b Let_def)
qed

lemma io_spawn_funpow: "io ((spawn_one ^^ n) g) = io g"
  by (induction n) simp_all

lemma io_spawn_police [simp]: "io (spawn_police g) = io g"
  by (simp add: spawn_police_def io_spawn_funpow)

lemma discover_area_io: "discover_area p g = Inr g' \<Longrightarrow> io g' = io g"
  by (auto simp: discover_area_def and_then_Inr_iff)

subsection \<open>What reads input\<close>

lemma reads_refl [simp]: "reads g g"
  by (simp add: reads_def)

lemma input_reads: "input g = Inr (l, g') \<Longrightarrow> stdin g = l # stdin g' \<and> running g' = running g"
  by (auto simp: input_def split: list.splits)

lemma offer_reads: "offer m p g = Inr g' \<Longrightarrow> reads g g'"
  by (auto simp: offer_def and_then_Inr_iff reads_def upd_def dest!: input_reads split: if_splits)

lemma talk_reads: "talk n p g = Inr g' \<Longrightarrow> reads g g'"
  by (auto simp: talk_def NPC_talk_def BigSmoke_talk_def intro: io_reads
      dest: offer_reads split: if_splits option.splits)

lemma shop_loop_reads:
  "shop_loop s p ls g = Inr g' \<Longrightarrow> running g' = running g \<and> (\<exists>pre. ls = pre @ stdin g')"
proof (induction ls arbitrary: g)
  case Nil
  then show ?case by simp
next
  case (Cons l ls)
  let ?g0 = "g\<lparr>stdin := ls\<rparr>"
  show ?case
  proof (cases "l = ''0''")
    case True
    with Cons.prems show ?thesis by auto
  next
    case False
    with Cons.prems obtain g1 where rec: "shop_loop s p ls g1 = Inr g'" and run: "running g1 = running g"
      by (auto simp: Let_def add_item_def upd_def split: option.splits if_splits prod.splits)
    from Cons.IH [OF rec] run show ?thesis by (metis append_Cons)
  qed
qed

lemma Shop_enter_reads: "Shop_enter s p g = Inr g' \<Longrightarrow> reads g g'"
  by (auto simp: Shop_enter_def reads_def dest: shop_loop_reads)

lemma interact_reads: "interact ob p g = Inr (b, g') \<Longrightarrow> reads g g'"
  by (auto simp: interact_def and_then_Inr_iff intro: io_reads
      dest: talk_reads Shop_enter_reads io_pair [OF _ io_basic(12)]
      split: if_splits option.splits)

lemma interact_False: "interact ob p g = Inr (False, g') \<Longrightarrow> g' = g"
  by (auto simp: interact_def and_then_Inr_iff Vehicle_enter_def split: if_splits option.splits)

lemma scan_reads: "scan ds cx cy p g = Inr (b, g') \<Longrightarrow> reads g g'"
proof (induction ds arbitrary: g)
  case Nil
  then show ?case by simp
next
  case (Cons d ds)
  show ?case
  proof (cases "get_object_at g (cx + fst d) (cy + snd d)")
    case None
    with Cons show ?thesis by simp
  next
    case (Some ob)
    show ?thesis
    proof (cases "interact ob p g")
      case (Inl e)
      with Some Cons.prems show ?thesis by simp
    next
      case (Inr r)
      obtain i g1 where r: "r = (i, g1)" by (cases r)
      show ?thesis
      proof (cases i)
        case True
        with Some Inr r Cons.prems show ?thesis by (auto dest: interact_reads)
      next
        case False
        with Inr r have "g1 = g" by (auto dest: interact_False)
        with Some Inr r False Cons show ?thesis by simp
      qed
    qed
  qed
qed

lemma use_item_reads: "use_item p g = Inr (b, g') \<Longrightarrow> reads g g'"
proof (cases "inventory (heap g p) = []")
  case True
  assume "use_item p g = Inr (b, g')"
  with True show ?thesis by (simp add: use_item_def)
next
  case False
  assume u: "use_item p g = Inr (b, g')"
  with False obtain l g1 where i: "input g = Inr (l, g1)" and "io g' = io g1"
    by (auto simp: use_item_def and_then_Inr_iff Let_def split: if_splits option.splits)
  then show ?thesis
    by (auto simp: reads_def io_def dest!: input_reads)
qed

lemma load_game_io:
  "load_game g = Inr (rep, g') \<Longrightarrow> running g' \<and> stdin g' = stdin g"
  using load_game_restarts [of g] by (auto simp: new_world_running new_world_stdin)

lemma io_exit_command:
  "io (case current_vehicle (heap g p) of Some v \<Rightarrow> snd (Vehicle_exit v p g) | None \<Rightarrow> g) = io g"
  by (simp split: option.splits)

lemma handle_input_reads:
  assumes "handle_input k g = Inr g'" and "running g"
  shows "if k = ''q'' then g' = g\<lparr>running := False\<rparr>
         else running g' \<and> (\<exists>pre. stdin g = pre @ stdin g')"
proof -
  have "k \<noteq> ''q'' \<Longrightarrow> reads g g' \<or> (running g' \<and> stdin g' = stdin g)"
    using assms(1)
    by (auto simp: handle_input_def Let_def and_then_Inr_iff io_exit_command
        dest!: discover_area_io scan_reads use_item_reads load_game_io
        intro: io_reads reads_io split: if_splits)
  with assms show ?thesis
    by (auto simp: reads_def handle_input_def)
qed

subsection \<open>The turn loop\<close>

lemma io_periodic_effects [simp]: "io (periodic_effects g) = io g"
  by (simp add: periodic_effects_def Let_def)

lemma tick_break:
  "tick g = Inr (False, g') \<Longrightarrow> g' = g\<lparr>running := False\<rparr> \<and> health (heap g (player g)) \<le> 0"
  by (auto simp: tick_def and_then_Inr_iff Let_def split: if_splits)

lemma tick_continue:
  assumes "running g" and "tick g = Inr (True, g')"
  shows "\<exists>l pre. stdin g = l # pre @ stdin g'
           \<and> (if lower l = ''q'' then \<not> running g' \<and> pre = [] else running g')"
proof -
  from assms(2) obtain l g4 g5 where
    i: "input (periodic_effects g) = Inr (l, g4)" and h: "handle_input (lower l) g4 = Inr g5"
    and g': "g' = (enemy_turns g5)\<lparr>game_time := game_time (enemy_turns g5) + 1\<rparr>"
    by (auto simp: tick_def and_then_Inr_iff Let_def split: if_splits)
  have io3: "io (periodic_effects g) = io g" by simp
  from i have s4: "stdin (periodic_effects g) = l # stdin g4"
    and r4: "running g4 = running (periodic_effects g)"
    by (auto dest: input_reads)
  from io3 assms(1) r4 have run4: "running g4" by (simp add: io_def)
  have io': "io g' = io g5" by (simp add: g')
  from io3 s4 have s: "stdin g = l # stdin g4" by (simp add: io_def)
  from io' have e: "stdin g' = stdin g5" "running g' = running g5" by (simp_all add: io_def)
  show ?thesis
  proof (cases "lower l = ''q''")
    case True
    with handle_input_reads [OF h run4] have "g5 = g4\<lparr>running := False\<rparr>" by simp
    with s e True show ?thesis by simp
  next
    case False
    with handle_input_reads [OF h run4] obtain pre where "running g5" "stdin g4 = pre @ stdin g5"
      by auto
    with s e False show ?thesis by simp
  qed
qed

lemma loop_stopped: "\<not> running g \<Longrightarrow> loop n g = Inr (Some g)"
  by (cases n) simp_all

lemma loop_Suc_running:
  "running g \<Longrightarrow> loop (Suc n) g =
     (case tick g of Inl e \<Rightarrow> Inl e | Inr (False, g') \<Rightarrow> Inr (Some g') | Inr (True, g') \<Rightarrow> loop n g')"
  by simp

lemma loop_exit:
  "running g \<Longrightarrow> loop n g = Inr (Some g') \<Longrightarrow>
   \<not> running g' \<and> (health (heap g' (player g')) \<le> 0
                    \<or> (\<exists>pre l. stdin g = pre @ l # stdin g' \<and> lower l = ''q''))"
proof (induction n arbitrary: g)
  case 0
  then show ?case by simp
next
  case (Suc n)
  note run = Suc.prems(1)
  from Suc.prems have eq:
    "(case tick g of Inl e \<Rightarrow> Inl e | Inr (False, g1) \<Rightarrow> Inr (Some g1)
      | Inr (True, g1) \<Rightarrow> loop n g1) = Inr (Some g')"
    by (simp only: loop_Suc_running)
  show ?case
  proof (cases "tick g")
    case (Inl e)
    with eq show ?thesis by simp
  next
    case (Inr r)
    obtain b g1 where r: "r = (b, g1)" by (cases r)
    show ?thesis
    proof (cases b)
      case False
      with Inr r eq have "g' = g1" by simp
      moreover from Inr r False have "tick g = Inr (False, g1)" by simp
      ultimately show ?thesis by (auto dest: tick_break)
    next
      case True
      with Inr r have t1: "tick g = Inr (True, g1)" by simp
      with eq have rec: "loop n g1 = Inr (Some g')" by simp
      from tick_continue [OF run t1] obtain l pre where
        s: "stdin g = l # pre @ stdin g1"
        and q: "if lower l = ''q'' then \<not> running g1 \<and> pre = [] else running g1"
        by blast
      show ?thesis
      proof (cases "lower l = ''q''")
        case True
        with q have nr: "\<not> running g1" and "pre = []" by simp_all
        from rec loop_stopped [OF nr, of n] have "g' = g1" by simp
        with nr s True \<open>pre = []\<close> have "\<not> running g'" and "stdin g = [] @ l # stdin g'"
          by simp_all
        with True show ?thesis by blast
      next
        case False
        with q have "running g1" by simp
        from Suc.IH [OF this rec] have
          nr: "\<not> running g'" and
          d: "health (heap g' (player g')) \<le> 0
             \<or> (\<exists>pre' l'. stdin g1 = pre' @ l' # stdin g' \<and> lower l' = ''q'')"
          by simp_all
        from d show ?thesis
        proof
          assume "health (heap g' (player g')) \<le> 0"
          with nr show ?thesis by simp
        next
          assume "\<exists>pre' l'. stdin g1 = pre' @ l' # stdin g' \<and> lower l' = ''q''"
          then obtain pre' l' where s1: "stdin g1 = pre' @ l' # stdin g'" and q': "lower l' = ''q''"
            by blast
          from s s1 have "stdin g = (l # pre @ pre') @ l' # stdin g'" by simp
          with nr q' show ?thesis by blast
        qed
      qed
    qed
  qed
qed

lemma loop_fuel: "length (stdin g) < n \<Longrightarrow> loop n g \<noteq> Inr None"
proof (induction n arbitrary: g)
  case 0
  then show ?case by simp
next
  case (Suc n)
  show ?case
  proof (cases "running g")
    case False
    from loop_stopped [OF this, of "Suc n"] show ?thesis by simp
  next
    case True
    show ?thesis
    proof (cases "tick g")
      case (Inl e)
      with True show ?thesis by (simp only: loop_Suc_running) simp
    next
      case (Inr r)
      obtain b g1 where r: "r = (b, g1)" by (cases r)
      show ?thesis
      proof (cases b)
        case False
        with True Inr r show ?thesis by (simp only: loop_Suc_running) simp
      next
        case b: True
        from Inr r b have t1: "tick g = Inr (True, g1)" by simp
        from tick_continue [OF True t1] obtain l pre where "stdin g = l # pre @ stdin g1"
          by blast
        with Suc.prems have "length (stdin g1) < n" by simp
        from Suc.IH [OF this] have "loop n g1 \<noteq> Inr None" .
        with True t1 show ?thesis by (simp only: loop_Suc_running) simp
      qed
    qed
  qed
qed

lemma loop_defeat:
  "running g \<Longrightarrow> render g (player g) = Inr () \<Longrightarrow> health (heap g (player g)) \<le> 0 \<Longrightarrow>
   loop (Suc n) g = Inr (Some (g\<lparr>running := False\<rparr>))"
  by (simp only: loop_Suc_running) (simp add: tick_def and_then_def)

lemma loop_quit:
  assumes "running g" and "tick g = Inr (True, g1)" and "stdin g = l # rest" and "lower l = ''q''"
  shows "loop (Suc n) g = Inr (Some g1) \<and> \<not> running g1 \<and> stdin g1 = rest"
proof -
  from tick_continue [OF assms(1,2)] assms(3,4) have nr: "\<not> running g1" and "stdin g1 = rest"
    by auto
  moreover from assms(1,2) have "loop (Suc n) g = loop n g1"
    by (simp only: loop_Suc_running) simp
  moreover note loop_stopped [OF nr, of n]
  ultimately show ?thesis by simp
qed

subsection \<open>Big Smoke's two cells\<close>

text \<open>
  The player on foot and a vehicle are both stopped by either cell of a Big Smoke who is
  on the map.
\<close>

lemma Player_move_blocked_by_BigSmoke:
  assumes "b \<in> set (objects g)" and "isinstance (heap g b) BigSmoke" and "b \<noteq> p"
    and "current_vehicle (heap g p) = None"
    and "obj_y (heap g p) + dy = obj_y (heap g b)"
    and "obj_x (heap g p) + dx = obj_x (heap g b) \<or> obj_x (heap g p) + dx = obj_x (heap g b) + 1"
  shows "Player_move p dx dy g = (False, g)"
  using assms by (auto simp: Player_move_def Let_def list_ex_iff in_the_way_def)

lemma Vehicle_move_blocked_by_BigSmoke:
  assumes "b \<in> set (objects g)" and "isinstance (heap g b) BigSmoke" and "b \<noteq> v"
    and "occupant (heap g v) \<noteq> Some b"
    and "obj_y (heap g v) + dy = obj_y (heap g b)"
    and "obj_x (heap g v) + dx = obj_x (heap g b) \<or> obj_x (heap g v) + dx = obj_x (heap g b) + 1"
  shows "Vehicle_move v dx dy p g = (False, g)"
  using assms by (auto simp: Vehicle_move_def Let_def list_ex_iff in_the_way_def)

lemma isinstance_Enemy_not_Player: "isinstance ob Enemy \<Longrightarrow> cls_of ob \<noteq> Player"
  by (auto simp: isinstance_def)

subsection \<open>Missions\<close>

lemma prereqs_met_iff:
  "prereqs_met m pl \<longleftrightarrow> set (prerequisite_missions m) \<subseteq> set (missions_completed pl)"
  by (auto simp: prereqs_met_def list_all_iff)

lemma offer_mission:
  "offer m p g = Inr g' \<Longrightarrow> current_mission (heap g' p) = Some m' \<Longrightarrow>
   current_mission (heap g p) \<noteq> Some m' \<Longrightarrow> m' = m"
  by (auto simp: offer_def and_then_Inr_iff input_def upd_def split: list.splits if_splits)

lemma finish_mission_current: "current_mission (heap (finish_mission n m p g) p) = None"
  by (simp add: finish_mission_def complete_def add_item_def upd_def Let_def split: option.splits)

lemma talk_mission:
  assumes "talk n p g = Inr g'" and "current_mission (heap g' p) = Some m'"
    and "current_mission (heap g p) \<noteq> Some m'"
  shows "mission_offered (heap g n) = Some m' \<and> current_mission (heap g p) = None"
  using assms
  by (auto simp: talk_def NPC_talk_def BigSmoke_talk_def finish_mission_current
      dest: offer_mission split: if_splits option.splits)

lemma shop_loop_current_mission:
  "shop_loop s p ls g = Inr g' \<Longrightarrow> current_mission (heap g' p) = current_mission (heap g p)"
proof (induction ls arbitrary: g)
  case Nil
  then show ?case by simp
next
  case (Cons l ls)
  show ?case
  proof (cases "l = ''0''")
    case True
    with Cons.prems show ?thesis by auto
  next
    case False
    with Cons.prems obtain g1 where rec: "shop_loop s p ls g1 = Inr g'"
      and same: "current_mission (heap g1 p) = current_mission (heap g p)"
      by (auto simp: Let_def add_item_def upd_def split: option.splits if_splits prod.splits)
    from Cons.IH [OF rec] same show ?thesis by simp
  qed
qed

lemma interact_mission:
  assumes "interact ob p g = Inr (b, g')" and "current_mission (heap g' p) = Some m'"
    and "current_mission (heap g p) \<noteq> Some m'"
  shows "isinstance (heap g ob) NPC \<and> mission_offered (heap g ob) = Some m'
       \<and> prereqs_met m' (heap g p) \<and> current_mission (heap g p) = None"
proof (cases "isinstance (heap g ob) NPC")
  case True
  show ?thesis
  proof (cases "mission_offered (heap g ob)")
    case None
    with True assms(1) have "talk ob p g = Inr g'"
      by (auto simp: interact_def and_then_Inr_iff)
    from talk_mission [OF this assms(2,3)] None show ?thesis by simp
  next
    case (Some m)
    have met: "prereqs_met m (heap g p)"
    proof (rule ccontr)
      assume "\<not> prereqs_met m (heap g p)"
      with True Some assms show False by (auto simp: interact_def)
    qed
    with True Some assms(1) have "talk ob p g = Inr g'"
      by (auto simp: interact_def and_then_Inr_iff)
    from talk_mission [OF this assms(2,3)] Some met True show ?thesis by simp
  qed
next
  case False
  with assms(1) have "current_mission (heap g' p) = current_mission (heap g p)"
    by (auto simp: interact_def and_then_Inr_iff Shop_enter_def add_item_def remove_object_def
        Vehicle_enter_def upd_def dest: shop_loop_current_mission split: if_splits)
  with assms(2,3) show ?thesis by simp
qed

lemma scan_mission:
  "scan ds cx cy p g = Inr (b, g') \<Longrightarrow> current_mission (heap g' p) = Some m' \<Longrightarrow>
   current_mission (heap g p) \<noteq> Some m' \<Longrightarrow>
   prereqs_met m' (heap g p) \<and> current_mission (heap g p) = None"
proof (induction ds arbitrary: g)
  case Nil
  then show ?case by simp
next
  case (Cons d ds)
  show ?case
  proof (cases "get_object_at g (cx + fst d) (cy + snd d)")
    case None
    with Cons show ?thesis by simp
  next
    case (Some ob)
    show ?thesis
    proof (cases "interact ob p g")
      case (Inl e)
      with Some Cons.prems show ?thesis by simp
    next
      case (Inr r)
      obtain i g1 where r: "r = (i, g1)" by (cases r)
      show ?thesis
      proof (cases i)
        case True
        with Some Inr r Cons.prems have "interact ob p g = Inr (True, g')" by simp
        from interact_mission [OF this Cons.prems(2,3)] show ?thesis by simp
      next
        case False
        with Inr r have "g1 = g" by (auto dest: interact_False)
        with Some Inr r False Cons show ?thesis by simp
      qed
    qed
  qed
qed

lemma interact_command_mission:
  assumes "handle_input ''e'' g = Inr g'"
    and "current_mission (heap g' (player g)) = Some m"
    and "current_mission (heap g (player g)) \<noteq> Some m"
  shows "set (prerequisite_missions m) \<subseteq> set (missions_completed (heap g (player g)))
       \<and> current_mission (heap g (player g)) = None"
proof -
  let ?p = "player g"
  from assms(1) obtain b g1 where
    s: "scan neighbours (obj_x (heap g ?p)) (obj_y (heap g ?p)) ?p g = Inr (b, g1)"
    and d: "discover_area ?p g1 = Inr g'"
    by (auto simp: handle_input_def Let_def and_then_Inr_iff)
  from d have "current_mission (heap g' ?p) = current_mission (heap g1 ?p)"
    by (auto simp: upd_def dest!: discover_area_Inr)
  with assms(2) have "current_mission (heap g1 ?p) = Some m" by simp
  from scan_mission [OF s this assms(3)] show ?thesis by (simp add: prereqs_met_iff)
qed

lemma offer_accepts:
  "stdin g = l # rest \<Longrightarrow> lower l = ''yes'' \<Longrightarrow>
   offer m p g = Inr (upd p (\<lambda>a. a\<lparr>current_mission := Some m\<rparr>) (g\<lparr>stdin := rest\<rparr>))"
  by (simp add: offer_def input_def and_then_def)

lemma offer_declines:
  "stdin g = l # rest \<Longrightarrow> lower l \<noteq> ''yes'' \<Longrightarrow> offer m p g = Inr (g\<lparr>stdin := rest\<rparr>)"
  by (simp add: offer_def input_def and_then_def)

lemma talk_accepts:
  assumes "mission_offered (heap g n) = Some m" and "\<not> mission_completed (heap g n)"
    and "current_mission (heap g p) = None"
    and "if isinstance (heap g n) BigSmoke
         then ''Sweet's Mission'' \<in> set (missions_completed (heap g p))
            \<and> ''Ryder's Mission'' \<in> set (missions_completed (heap g p))
            \<and> \<not> list_ex (\<lambda>it. isinstance (heap g it) MoneyBundle \<and> obj_name (heap g it) = ''Cash Bundle'')
                  (inventory (heap g p))
         else \<not> is_completed m p g"
    and "stdin g = l # rest" and "lower l = ''yes''"
  shows "talk n p g = Inr (upd p (\<lambda>a. a\<lparr>current_mission := Some m\<rparr>) (g\<lparr>stdin := rest\<rparr>))"
  using assms
  by (cases "isinstance (heap g n) BigSmoke")
     (simp_all add: talk_def NPC_talk_def BigSmoke_talk_def offer_accepts)

lemma talk_declines:
  assumes "talk n p g = Inr g'" and "current_mission (heap g p) = None"
    and "stdin g = l # rest" and "lower l \<noteq> ''yes''"
  shows "current_mission (heap g' p) = None"
proof (rule ccontr)
  assume "current_mission (heap g' p) \<noteq> None"
  then obtain m' where c: "current_mission (heap g' p) = Some m'" by auto
  with assms(2) have "current_mission (heap g p) \<noteq> Some m'" by simp
  from talk_mission [OF assms(1) c this] have mo: "mission_offered (heap g n) = Some m'" by simp
  have "offer m' p g = Inr (g\<lparr>stdin := rest\<rparr>)" using assms(3,4) by (rule offer_declines)
  with assms(1,2) mo have "g' = g \<or> g' = g\<lparr>stdin := rest\<rparr> \<or> g' = finish_mission n m' p g"
    by (auto simp: talk_def NPC_talk_def BigSmoke_talk_def split: if_splits)
  with assms(2) c show False by (auto simp: finish_mission_current)
qed

subsection \<open>Completing a mission\<close>

lemma talk_completed: "mission_completed (heap g n) \<Longrightarrow> talk n p g = Inr g"
  by (simp add: talk_def NPC_talk_def BigSmoke_talk_def split: option.splits)

lemma offer_completed:
  "offer m p g = Inr g' \<Longrightarrow> missions_completed (heap g' p) = missions_completed (heap g p)"
  by (auto simp: offer_def and_then_Inr_iff input_def upd_def split: list.splits if_splits)

lemma finish_mission_effect:
  "missions_completed (heap (finish_mission n m p g) p) = missions_completed (heap g p) @ [mission_name m]
   \<and> money (heap (finish_mission n m p g) p) = money (heap g p) + reward_money m
   \<and> mission_completed (heap (finish_mission n m p g) n)"
  by (simp add: finish_mission_def complete_def add_item_def upd_def Let_def split: option.splits)

lemma NPC_talk_completes:
  assumes "NPC_talk n p g = Inr g1"
    and "missions_completed (heap g1 p) \<noteq> missions_completed (heap g p)"
  shows "\<exists>m. mission_offered (heap g n) = Some m \<and> g1 = finish_mission n m p g"
proof (cases "mission_offered (heap g n)")
  case None
  with assms show ?thesis by (simp add: NPC_talk_def)
next
  case (Some m)
  show ?thesis
  proof (cases "\<not> mission_completed (heap g n) \<and> is_completed m p g")
    case True
    with Some assms(1) show ?thesis by (simp add: NPC_talk_def)
  next
    case False
    with Some assms(1) have "g1 = g \<or> offer m p g = Inr g1"
      by (auto simp: NPC_talk_def split: if_splits)
    with assms(2) show ?thesis by (auto dest: offer_completed)
  qed
qed


lemma BigSmoke_talk_completes:
  assumes "BigSmoke_talk n p g = Inr g1"
    and "missions_completed (heap g1 p) \<noteq> missions_completed (heap g p)"
  shows "\<exists>m. mission_offered (heap g n) = Some m \<and> g1 = finish_mission n m p g"
proof (cases "mission_offered (heap g n)")
  case None
  with assms(1) have "g1 = g"
    by (simp add: BigSmoke_talk_def split: if_splits)
  with assms(2) show ?thesis by simp
next
  case (Some m)
  with assms(1) have "g1 = g \<or> offer m p g = Inr g1 \<or> g1 = finish_mission n m p g"
    by (simp add: BigSmoke_talk_def split: if_splits)
  with assms(2) Some show ?thesis by (auto dest: offer_completed)
qed

lemma talk_completes:
  assumes "talk n p g = Inr g1"
    and "missions_completed (heap g1 p) \<noteq> missions_completed (heap g p)"
  shows "\<exists>m. mission_offered (heap g n) = Some m \<and> g1 = finish_mission n m p g"
proof (cases "isinstance (heap g n) BigSmoke")
  case True
  with assms(1) have "BigSmoke_talk n p g = Inr g1" by (simp add: talk_def)
  from BigSmoke_talk_completes [OF this assms(2)] show ?thesis .
next
  case False
  with assms(1) have "NPC_talk n p g = Inr g1" by (simp add: talk_def)
  from NPC_talk_completes [OF this assms(2)] show ?thesis .
qed

lemma interact_completed:
  assumes "isinstance (heap g n) NPC" and "mission_completed (heap g n)"
  shows "\<exists>b. interact n p g = Inr (b, g)"
proof (cases "mission_offered (heap g n)")
  case None
  with assms show ?thesis by (auto simp: interact_def talk_completed and_then_def)
next
  case (Some m)
  with assms show ?thesis
    by (cases "prereqs_met m (heap g p)") (auto simp: interact_def talk_completed and_then_def)
qed

subsection \<open>The claims\<close>

text \<open>
  C3. A call of \<^verbatim>\<open>load_game\<close> on a save file that is missing, cannot be read or is not
  JSON does not raise: it reports which of the three it met, and the game is then exactly
  the world a new \<^verbatim>\<open>Game()\<close> builds: running, at tick 0, the player a new \<^verbatim>\<open>Player\<close> at the
  centre of the map, with the fifteen default objects on the map.
\<close>

theorem load_game_falls_back:
  assumes "disk g \<in> {Missing, Unreadable, Malformed}"
  shows "load_game g =
           Inr (case disk g of Missing \<Rightarrow> NotFound | Malformed \<Rightarrow> Corrupted
                | _ \<Rightarrow> Unexpected OSError, new_world g)
       \<and> Game_init g = Inr (new_world g)
       \<and> running (new_world g) \<and> game_time (new_world g) = 0
       \<and> heap (new_world g) (player (new_world g)) = Player_init (MAP_WIDTH div 2) (MAP_HEIGHT div 2)
       \<and> player (new_world g) \<in> set (objects (new_world g))
       \<and> length (objects (new_world g)) = 15"
proof -
  have "load_game g =
          Inr (case disk g of Missing \<Rightarrow> NotFound | Malformed \<Rightarrow> Corrupted
               | _ \<Rightarrow> Unexpected OSError, new_world g)"
    using assms
    by (auto simp: load_game_def read_save_def start_new_game_def Game_init_ok and_then_def)
  then show ?thesis
    by (simp add: Game_init_ok new_world_player new_world_running new_world_game_time
        new_world_objects new_world_cj MAP_WIDTH_def MAP_HEIGHT_def)
qed

theorem load_game_falls_back_witness:
  "disk quiet \<in> {Missing, Unreadable, Malformed}
   \<and> load_game quiet = Inr (NotFound, new_world quiet)
   \<and> load_game (quiet\<lparr>disk := Malformed\<rparr>) = Inr (Corrupted, new_world (quiet\<lparr>disk := Malformed\<rparr>))
   \<and> load_game (quiet\<lparr>disk := Unreadable\<rparr>)
       = Inr (Unexpected OSError, new_world (quiet\<lparr>disk := Unreadable\<rparr>))"
  using load_game_falls_back [of quiet] load_game_falls_back [of "quiet\<lparr>disk := Malformed\<rparr>"]
    load_game_falls_back [of "quiet\<lparr>disk := Unreadable\<rparr>"]
  by (simp add: quiet_def)

text \<open>
  C1 fails on the code. From a new game the player steps right to \<open>(41, 12)\<close>; the game
  is saved and the document loaded at once. Rebuilding the player raises \<^verbatim>\<open>TypeError\<close>,
  the catch-all handler starts a new game, and the player is back at \<open>(40, 12)\<close> with
  full stamina.
\<close>

theorem save_load_round_trip_fails:
  "returns (handle_input ''d'' (new_world quiet)) (\<lambda>g.
     obj_x (heap g (player g)) = 41 \<and> stamina (heap g (player g)) = 99
     \<and> returns (load_game (save_game g)) (\<lambda>(rep, g').
         rep = Unexpected TypeError
         \<and> obj_x (heap g' (player g')) = 40 \<and> stamina (heap g' (player g')) = 100))"
proof -
  have "returns (handle_input ''d'' (new_world quiet)) (\<lambda>g.
          obj_x (heap g (player g)) = 41 \<and> stamina (heap g (player g)) = 99 \<and> disk_writable g)"
    by code_simp
  then show ?thesis
    by (auto simp: returns_def load_after_save new_world_player new_world_cj Player_init_def
        Character_init_def GameObject_init_def split: sum.splits)
qed

text \<open>
  C2 fails on the code. A document of an older shape, whose player has health 50 and no
  \<^verbatim>\<open>stamina\<close> (nor any other newer field), is not deserialized: the load ends in the
  catch-all handler and a new game, with health 100.
\<close>

theorem load_old_save_fails:
  "load_game (quiet\<lparr>disk := Document old_save\<rparr>)
     = Inr (Unexpected TypeError, new_world (quiet\<lparr>disk := Document old_save\<rparr>))
   \<and> health (heap (new_world (quiet\<lparr>disk := Document old_save\<rparr>))
               (player (new_world (quiet\<lparr>disk := Document old_save\<rparr>)))) = 100"
proof -
  have "Character_from_dict Player
          (JObj [ (''x'', JInt 3), (''y'', JInt 4), (''char'', JStr ''C''), (''name'', JStr ''CJ''),
              (''health'', JInt 50), (''money'', JInt 20), (''inventory'', JList []) ]) g
        = Inl TypeError" for g
    by (simp add: Character_from_dict_def getitem_def get_def and_then_def as_int_JInt
        as_rat_JInt as_str_def accepts_def)
  then have "load_body old_save g = Inl TypeError" for g
    by (simp add: load_body_def old_save_def Player_from_dict_def and_then_def get_def
        getitem_def as_int_JInt)
  then show ?thesis
    by (simp add: load_game_def read_save_def and_then_def start_new_game_def Game_init_ok
        new_world_player new_world_cj Player_init_def Character_init_def GameObject_init_def)
qed



text \<open>
  C5, as the code has it. Started running, the main loop returns normally only with the
  running flag cleared, and then either the player's health is at most 0 (the defeat
  test left the loop) or the last line read from the input was the quit command. Both
  do end it: a pass that finds the player's health at most 0 leaves the loop at once,
  and a pass whose command is \<^verbatim>\<open>q\<close> is the last one. The bounded model never stops for
  lack of passes. Completing the missions is no way out of the loop, and an exception
  (the end of the input, a player outside the grid when the map is drawn) is no normal
  return.
\<close>

theorem game_loop_ends_by_defeat_or_quit:
  assumes "running g"
  shows "game_loop g \<noteq> Inr None
       \<and> (\<forall>g'. game_loop g = Inr (Some g') \<longrightarrow>
             \<not> running g' \<and> (health (heap g' (player g')) \<le> 0
                \<or> (\<exists>pre l. stdin g = pre @ l # stdin g' \<and> lower l = ''q'')))
       \<and> (\<forall>n. render g (player g) = Inr () \<and> health (heap g (player g)) \<le> 0 \<longrightarrow>
             loop (Suc n) g = Inr (Some (g\<lparr>running := False\<rparr>)))
       \<and> (\<forall>n g1 l rest. tick g = Inr (True, g1) \<and> stdin g = l # rest \<and> lower l = ''q'' \<longrightarrow>
             loop (Suc n) g = Inr (Some g1) \<and> \<not> running g1)"
proof (intro conjI allI impI)
  show "game_loop g \<noteq> Inr None"
  proof (cases "discover_area (player g) g")
    case (Inl e)
    then show ?thesis by (simp add: game_loop_def and_then_def)
  next
    case (Inr g1)
    define g2 where "g2 = (if wanted_level (heap g1 (player g1)) > 0 then spawn_police g1 else g1)"
    have "io g2 = io g1" by (simp add: g2_def)
    then have "stdin g2 = stdin g1" by (simp add: io_def)
    then have "length (stdin g2) < Suc (length (stdin g1))" by simp
    from loop_fuel [OF this] show ?thesis
      by (simp add: game_loop_def Inr and_then_def g2_def del: loop.simps)
  qed
next
  fix g'
  assume ended: "game_loop g = Inr (Some g')"
  from ended obtain g1 where d: "discover_area (player g) g = Inr g1"
    by (auto simp: game_loop_def and_then_Inr_iff)
  define g2 where "g2 = (if wanted_level (heap g1 (player g1)) > 0 then spawn_police g1 else g1)"
  have io1: "io g1 = io g" using d by (rule discover_area_io)
  then have io2: "io g2 = io g" by (simp add: g2_def)
  with assms have run2: "running g2" and s2: "stdin g2 = stdin g" by (simp_all add: io_def)
  from ended d have "loop (Suc (length (stdin g1))) g2 = Inr (Some g')"
    by (simp add: game_loop_def and_then_def g2_def del: loop.simps)
  from loop_exit [OF run2 this] s2
  show "\<not> running g'" 
    and "health (heap g' (player g')) \<le> 0
         \<or> (\<exists>pre l. stdin g = pre @ l # stdin g' \<and> lower l = ''q'')"
    by simp_all
next
  fix n
  assume "render g (player g) = Inr () \<and> health (heap g (player g)) \<le> 0"
  with assms show "loop (Suc n) g = Inr (Some (g\<lparr>running := False\<rparr>))"
    by (simp only: loop_defeat)
next
  fix n g1 l rest
  assume a: "tick g = Inr (True, g1) \<and> stdin g = l # rest \<and> lower l = ''q''"
  with loop_quit [OF assms, of g1 l rest n]
  show "loop (Suc n) g = Inr (Some g1)" and "\<not> running g1" by simp_all
qed

theorem game_loop_ends_by_defeat_or_quit_witness:
  "running quits_at_once
   \<and> returns (game_loop quits_at_once) (\<lambda>r. \<exists>g'. r = Some g' \<and> \<not> running g'
        \<and> (health (heap g' (player g')) \<le> 0
           \<or> (\<exists>pre l. stdin quits_at_once = pre @ l # stdin g' \<and> lower l = ''q'')))"
proof -
  have run: "running quits_at_once"
    by (simp add: quits_at_once_def new_world_running)
  have "returns (game_loop quits_at_once) (\<lambda>r. r \<noteq> None)"
    by code_simp
  then obtain g' where "game_loop quits_at_once = Inr (Some g')"
    by (auto simp: returns_def split: sum.splits)
  with game_loop_ends_by_defeat_or_quit [OF run] run show ?thesis
    by (simp add: returns_def)
qed

text \<open>
  C5 as stated fails: with all three missions in the completed list and the player in
  full health, a pass through the loop body runs to its end, the tick counter advances,
  and the loop condition still holds.
\<close>

theorem victory_does_not_end_loop_counterexample:
  "running all_missions_done
   \<and> set [''Sweet's Mission'', ''Ryder's Mission'', ''Big Smoke's Mission'']
       \<subseteq> set (missions_completed (heap all_missions_done (player all_missions_done)))
   \<and> returns (tick all_missions_done) (\<lambda>(continue, g').
        continue \<and> running g' \<and> game_time g' = 1 \<and> stdin g' = [])"
  by code_simp

text \<open>
  C4, as the code has it. The attack command is given in a state where the player has no
  wanted level, the first enemy found in the eight neighbour cells belongs to the
  faction Police, and the player's attack defeats it. Then the command returns with the
  wanted level at 2, the player's money unchanged (no bonus is paid for a defeat), and
  the enemy gone from the map's objects and from the enemies dictionary.
\<close>

theorem attack_defeats_police:
  assumes ret: "handle_input ''f'' g = Inr g'"
    and cj: "cls_of (heap g (player g)) = Player"
    and target: "find_enemy neighbours (player g) g = Some t"
    and police: "faction (heap g t) = ''Police''"
    and defeated: "fst (Character_f (player g) t g)"
    and unwanted: "wanted_level (heap g (player g)) = 0"
    and once: "distinct (objects g)" "distinct (map snd (enemies g))"
  shows "wanted_level (heap g' (player g')) = 2
       \<and> money (heap g' (player g')) = money (heap g (player g))
       \<and> t \<notin> set (objects g') \<and> t \<notin> snd ` set (enemies g')"
proof -
  let ?p = "player g"
  from find_enemy_Some [OF target] cj have other: "t \<noteq> ?p"
    by (auto dest: isinstance_Enemy_not_Player)
  let ?g1 = "snd (Character_f ?p t g)"
  let ?g2 = "forget_enemy t (remove_object t ?g1)"
  have a: "attack ?p g = add_wanted_level ?p 2 ?g2"
    using attack_defeated [OF target defeated other] police by simp
  from ret obtain dm where g': "g' = upd ?p (\<lambda>a. a\<lparr>discovered_map := dm\<rparr>) (attack ?p g)"
    by (auto simp: handle_input_def Let_def dest: discover_area_Inr)
  have h1: "heap ?g1 ?p = heap g ?p" and o1: "objects ?g1 = objects g"
    and e1: "enemies ?g1 = enemies g" and p1: "player ?g1 = player g"
    using other by (simp_all add: Character_f_def Character_take_damage_def upd_def)
  have h2: "heap ?g2 = heap ?g1" and o2: "objects ?g2 = remove1 t (objects g)"
    and p2: "player ?g2 = player g"
    and e2: "enemies ?g2 = (case find (\<lambda>kv. snd kv = t) (enemies g) of None \<Rightarrow> enemies g
                            | Some kv \<Rightarrow> AList.delete (fst kv) (enemies g))"
    using find_enemy_Some [OF target] o1 e1 p1
    by (simp_all add: forget_enemy_def remove_object_def split: option.splits)
  have "wanted_level (heap g' (player g')) = 2"
    using unwanted h1 h2 p2
    by (simp add: g' a add_wanted_level_def upd_def clamp_def MAX_WANTED_LEVEL_def)
  moreover have "money (heap g' (player g')) = money (heap g ?p)"
    using h1 h2 p2 by (simp add: g' a add_wanted_level_def upd_def)
  moreover have "t \<notin> set (objects g')"
    using o2 once(1) by (simp add: g' a add_wanted_level_def upd_def)
  moreover have "t \<notin> snd ` set (enemies g')"
    using forget_enemy_gone [OF once(2), of t] e2 by (simp add: g' a add_wanted_level_def upd_def)
  ultimately show ?thesis by simp
qed

theorem attack_defeats_police_witness:
  "returns (handle_input ''f'' officer_beside_player) (\<lambda>g'.
     cls_of (heap officer_beside_player (player officer_beside_player)) = Player
     \<and> find_enemy neighbours (player officer_beside_player) officer_beside_player = Some 17
     \<and> faction (heap officer_beside_player 17) = ''Police''
     \<and> fst (Character_f (player officer_beside_player) 17 officer_beside_player)
     \<and> wanted_level (heap officer_beside_player (player officer_beside_player)) = 0
     \<and> distinct (objects officer_beside_player)
     \<and> distinct (map snd (enemies officer_beside_player))
     \<and> wanted_level (heap g' (player g')) = 2
     \<and> money (heap g' (player g'))
         = money (heap officer_beside_player (player officer_beside_player))
     \<and> 17 \<notin> set (objects g') \<and> 17 \<notin> snd ` set (enemies g'))"
proof -
  have h: "cls_of (heap officer_beside_player (player officer_beside_player)) = Player
     \<and> find_enemy neighbours (player officer_beside_player) officer_beside_player = Some 17
     \<and> faction (heap officer_beside_player 17) = ''Police''
     \<and> fst (Character_f (player officer_beside_player) 17 officer_beside_player)
     \<and> wanted_level (heap officer_beside_player (player officer_beside_player)) = 0
     \<and> distinct (objects officer_beside_player)
     \<and> distinct (map snd (enemies officer_beside_player))"
    by code_simp
  have "returns (handle_input ''f'' officer_beside_player) (\<lambda>g'. True)"
    by code_simp
  then obtain g' where r: "handle_input ''f'' officer_beside_player = Inr g'"
    by (auto simp: returns_def split: sum.splits)
  from h attack_defeats_police [OF r, of 17] show ?thesis
    by (simp add: returns_def r)
qed

text \<open>
  C4 as stated fails: the player defeats the officer beside him and his money has not
  increased.
\<close>

theorem attack_police_bonus_counterexample:
  "returns (handle_input ''f'' officer_beside_player) (\<lambda>g'.
     wanted_level (heap officer_beside_player (player officer_beside_player)) = 0
     \<and> find_enemy neighbours (player officer_beside_player) officer_beside_player = Some 17
     \<and> faction (heap officer_beside_player 17) = ''Police''
     \<and> fst (Character_f (player officer_beside_player) 17 officer_beside_player)
     \<and> \<not> money (heap g' (player g'))
           > money (heap officer_beside_player (player officer_beside_player)))"
  by code_simp

text \<open>
  C6 fails on the code for an enemy. Big Smoke stands at \<open>(20, 15)\<close>, so his second cell is
  \<open>(21, 15)\<close>. A gangster at \<open>(22, 15)\<close> whose random walk tries the step left first moves
  onto \<open>(21, 15)\<close>, and so does a gangster at \<open>(22, 16)\<close> stepping towards \<open>(20, 14)\<close>:
  neither move is rejected, and \<^verbatim>\<open>get_object_at\<close> still finds Big Smoke in that cell.
\<close>

theorem enemy_steps_onto_big_smoke:
  "3 \<in> set (objects gangster_right_of_smoke)
   \<and> isinstance (heap gangster_right_of_smoke 3) BigSmoke
   \<and> health (heap gangster_right_of_smoke 3) > 0
   \<and> obj_x (heap gangster_right_of_smoke 3) = 20 \<and> obj_y (heap gangster_right_of_smoke 3) = 15
   \<and> obj_x (heap gangster_right_of_smoke 15) = 22 \<and> obj_y (heap gangster_right_of_smoke 15) = 15
   \<and> (case move_randomly 15 gangster_right_of_smoke of (moved, g') \<Rightarrow>
        moved \<and> obj_x (heap g' 15) = 21 \<and> obj_y (heap g' 15) = 15
        \<and> get_object_at g' 21 15 = Some 3)
   \<and> obj_x (heap gangster_below_smoke 15) = 22 \<and> obj_y (heap gangster_below_smoke 15) = 16
   \<and> (case move_towards 15 20 14 gangster_below_smoke of (moved, g') \<Rightarrow>
        moved \<and> obj_x (heap g' 15) = 21 \<and> obj_y (heap g' 15) = 15
        \<and> get_object_at g' 21 15 = Some 3)"
  by code_simp

text \<open>
  C10. When the occupant leaves a vehicle, \<^verbatim>\<open>exit\<close> succeeds, clears both ends of the
  link and puts the character at \<open>(vehicle.x + 1, vehicle.y)\<close> without looking at the
  grid or at what is there. So there is a state (the car at \<open>x = 79\<close>) where the player
  ends outside the grid, and a state (the car just left of Sweet) where the player ends
  in the cell of another object of the map.
\<close>

theorem Vehicle_exit_unchecked:
  assumes "occupant (heap g v) = Some c"
  shows "(case Vehicle_exit v c g of (ok, g') \<Rightarrow>
            ok \<and> obj_x (heap g' c) = obj_x (heap g v) + 1 \<and> obj_y (heap g' c) = obj_y (heap g v)
            \<and> occupant (heap g' v) = None \<and> current_vehicle (heap g' c) = None)
       \<and> (occupant (heap car_at_edge 19) = Some 0
          \<and> in_bounds (obj_x (heap car_at_edge 0)) (obj_y (heap car_at_edge 0))
          \<and> (case Vehicle_exit 19 0 car_at_edge of (ok, g') \<Rightarrow>
                ok \<and> \<not> in_bounds (obj_x (heap g' 0)) (obj_y (heap g' 0))))
       \<and> (occupant (heap car_beside_sweet 18) = Some 0
          \<and> (case Vehicle_exit 18 0 car_beside_sweet of (ok, g') \<Rightarrow>
                ok \<and> 1 \<in> set (objects g') \<and> 0 \<in> set (objects g')
                \<and> obj_x (heap g' 0) = obj_x (heap g' 1) \<and> obj_y (heap g' 0) = obj_y (heap g' 1)))"
proof -
  have "case Vehicle_exit v c g of (ok, g') \<Rightarrow>
            ok \<and> obj_x (heap g' c) = obj_x (heap g v) + 1 \<and> obj_y (heap g' c) = obj_y (heap g v)
            \<and> occupant (heap g' v) = None \<and> current_vehicle (heap g' c) = None"
    using assms by (simp add: Vehicle_exit_def upd_def Let_def)
  moreover have "occupant (heap car_at_edge 19) = Some 0
          \<and> in_bounds (obj_x (heap car_at_edge 0)) (obj_y (heap car_at_edge 0))
          \<and> (case Vehicle_exit 19 0 car_at_edge of (ok, g') \<Rightarrow>
                ok \<and> \<not> in_bounds (obj_x (heap g' 0)) (obj_y (heap g' 0)))"
    by code_simp
  moreover have "occupant (heap car_beside_sweet 18) = Some 0
          \<and> (case Vehicle_exit 18 0 car_beside_sweet of (ok, g') \<Rightarrow>
                ok \<and> 1 \<in> set (objects g') \<and> 0 \<in> set (objects g')
                \<and> obj_x (heap g' 0) = obj_x (heap g' 1) \<and> obj_y (heap g' 0) = obj_y (heap g' 1))"
    by code_simp
  ultimately show ?thesis by blast
qed

theorem Vehicle_exit_unchecked_witness:
  "occupant (heap car_at_edge 19) = Some 0
   \<and> (case Vehicle_exit 19 0 car_at_edge of (ok, g') \<Rightarrow>
        ok \<and> obj_x (heap g' 0) = 80 \<and> obj_y (heap g' 0) = 15
        \<and> occupant (heap g' 19) = None \<and> current_vehicle (heap g' 0) = None
        \<and> render g' 0 = Inl IndexError)"
proof -
  have h: "occupant (heap car_at_edge 19) = Some 0 \<and> obj_x (heap car_at_edge 19) = 79
      \<and> obj_y (heap car_at_edge 19) = 15
      \<and> render (snd (Vehicle_exit 19 0 car_at_edge)) 0 = Inl IndexError"
    by code_simp
  with Vehicle_exit_unchecked [of car_at_edge 19 0] show ?thesis
    by (auto split: prod.splits)
qed

text \<open>
  C7. In the interact command, for an NPC that offers a mission: if a prerequisite of
  that mission is not in the player's completed list, nothing at all changes (and the
  scan goes on to the next cell). Whenever the interaction makes a mission the player's
  current one, it is the mission this NPC offers, all its prerequisites are in the
  completed list, and the player had no current mission before. And acceptance does
  happen: with all prerequisites completed, the mission not yet completed through this
  NPC, its objective not yet met (for Big Smoke: Sweet's and Ryder's missions completed
  and no Cash Bundle held), no current mission, and the answer \<^verbatim>\<open>yes\<close> in any case to the
  prompt, the interaction returns with that one line read and this mission as the
  player's current mission, nothing else changed; with any other answer the player still
  has no current mission. The current mission is a single slot, so the accepted mission
  is the only active one. (Lemma \<open>interact_command_mission\<close> says the second part of the
  whole command.)
\<close>

theorem mission_needs_prerequisites:
  assumes "isinstance (heap g n) NPC" and "mission_offered (heap g n) = Some m"
  shows "(\<not> set (prerequisite_missions m) \<subseteq> set (missions_completed (heap g p))
            \<longrightarrow> interact n p g = Inr (False, g))
       \<and> (\<forall>b g' m'. interact n p g = Inr (b, g') \<and> current_mission (heap g' p) = Some m'
              \<and> current_mission (heap g p) \<noteq> Some m'
            \<longrightarrow> m' = m \<and> set (prerequisite_missions m) \<subseteq> set (missions_completed (heap g p))
                \<and> current_mission (heap g p) = None)
       \<and> (\<forall>l rest. set (prerequisite_missions m) \<subseteq> set (missions_completed (heap g p))
              \<and> \<not> mission_completed (heap g n) \<and> current_mission (heap g p) = None
              \<and> (if isinstance (heap g n) BigSmoke
                  then ''Sweet's Mission'' \<in> set (missions_completed (heap g p))
                     \<and> ''Ryder's Mission'' \<in> set (missions_completed (heap g p))
                     \<and> \<not> list_ex (\<lambda>it. isinstance (heap g it) MoneyBundle
                                         \<and> obj_name (heap g it) = ''Cash Bundle'')
                           (inventory (heap g p))
                  else \<not> is_completed m p g)
              \<and> stdin g = l # rest \<and> lower l = ''yes''
            \<longrightarrow> interact n p g
                  = Inr (True, upd p (\<lambda>a. a\<lparr>current_mission := Some m\<rparr>) (g\<lparr>stdin := rest\<rparr>))
                \<and> current_mission
                    (heap (upd p (\<lambda>a. a\<lparr>current_mission := Some m\<rparr>) (g\<lparr>stdin := rest\<rparr>)) p)
                   = Some m)
       \<and> (\<forall>l rest b g'. current_mission (heap g p) = None \<and> stdin g = l # rest
              \<and> lower l \<noteq> ''yes'' \<and> interact n p g = Inr (b, g')
            \<longrightarrow> current_mission (heap g' p) = None)"
proof (intro conjI allI impI)
  assume "\<not> set (prerequisite_missions m) \<subseteq> set (missions_completed (heap g p))"
  with assms show "interact n p g = Inr (False, g)"
    by (simp add: interact_def prereqs_met_iff)
next
  fix b g' m'
  assume a: "interact n p g = Inr (b, g') \<and> current_mission (heap g' p) = Some m'
              \<and> current_mission (heap g p) \<noteq> Some m'"
  then have "interact n p g = Inr (b, g')" and "current_mission (heap g' p) = Some m'"
    and "current_mission (heap g p) \<noteq> Some m'"
    by simp_all
  from interact_mission [OF this] assms(2)
  show "m' = m" and "set (prerequisite_missions m) \<subseteq> set (missions_completed (heap g p))"
    and "current_mission (heap g p) = None"
    by (simp_all add: prereqs_met_iff)
next
  fix l rest
  assume a: "set (prerequisite_missions m) \<subseteq> set (missions_completed (heap g p))
              \<and> \<not> mission_completed (heap g n) \<and> current_mission (heap g p) = None
              \<and> (if isinstance (heap g n) BigSmoke
                  then ''Sweet's Mission'' \<in> set (missions_completed (heap g p))
                     \<and> ''Ryder's Mission'' \<in> set (missions_completed (heap g p))
                     \<and> \<not> list_ex (\<lambda>it. isinstance (heap g it) MoneyBundle
                                         \<and> obj_name (heap g it) = ''Cash Bundle'')
                           (inventory (heap g p))
                  else \<not> is_completed m p g)
              \<and> stdin g = l # rest \<and> lower l = ''yes''"
  then have met: "prereqs_met m (heap g p)" by (simp add: prereqs_met_iff)
  from a have a1: "\<not> mission_completed (heap g n)" and a2: "current_mission (heap g p) = None"
    and a3: "if isinstance (heap g n) BigSmoke
             then ''Sweet's Mission'' \<in> set (missions_completed (heap g p))
                \<and> ''Ryder's Mission'' \<in> set (missions_completed (heap g p))
                \<and> \<not> list_ex (\<lambda>it. isinstance (heap g it) MoneyBundle
                                    \<and> obj_name (heap g it) = ''Cash Bundle'')
                      (inventory (heap g p))
             else \<not> is_completed m p g"
    and a4: "stdin g = l # rest" and a5: "lower l = ''yes''"
    by blast+
  have "talk n p g = Inr (upd p (\<lambda>a. a\<lparr>current_mission := Some m\<rparr>) (g\<lparr>stdin := rest\<rparr>))"
    by (rule talk_accepts [OF assms(2) a1 a2 a3 a4 a5])
  with assms met
  show "interact n p g = Inr (True, upd p (\<lambda>a. a\<lparr>current_mission := Some m\<rparr>) (g\<lparr>stdin := rest\<rparr>))"
    by (simp add: interact_def and_then_def)
  show "current_mission (heap (upd p (\<lambda>a. a\<lparr>current_mission := Some m\<rparr>) (g\<lparr>stdin := rest\<rparr>)) p)
          = Some m"
    by (simp add: upd_def)
next
  fix l rest b g'
  assume a: "current_mission (heap g p) = None \<and> stdin g = l # rest
              \<and> lower l \<noteq> ''yes'' \<and> interact n p g = Inr (b, g')"
  show "current_mission (heap g' p) = None"
  proof (cases "prereqs_met m (heap g p)")
    case True
    with assms a have "talk n p g = Inr g'" by (auto simp: interact_def and_then_Inr_iff)
    from talk_declines [OF this] a show ?thesis by blast
  next
    case False
    with assms a have "g' = g" by (simp add: interact_def)
    with a show ?thesis by simp
  qed
qed

theorem mission_needs_prerequisites_witness:
  "isinstance (heap (new_world quiet) 2) NPC
   \<and> mission_offered (heap (new_world quiet) 2) = Some ryder_mission
   \<and> \<not> set (prerequisite_missions ryder_mission)
         \<subseteq> set (missions_completed (heap (new_world quiet) 0))
   \<and> interact 2 0 (new_world quiet) = Inr (False, new_world quiet)
   \<and> isinstance (heap says_yes 1) NPC \<and> mission_offered (heap says_yes 1) = Some sweet_mission
   \<and> current_mission (heap says_yes 0) = None \<and> stdin says_yes = [''Yes'']
   \<and> returns (interact 1 0 says_yes) (\<lambda>(interacted, g').
        interacted \<and> current_mission (heap g' 0) = Some sweet_mission \<and> stdin g' = [])"
proof -
  have r1: "isinstance (heap (new_world quiet) 2) NPC"
    and r2: "mission_offered (heap (new_world quiet) 2) = Some ryder_mission"
    and r3: "\<not> set (prerequisite_missions ryder_mission)
               \<subseteq> set (missions_completed (heap (new_world quiet) 0))"
    by code_simp+
  have s1: "isinstance (heap says_yes 1) NPC"
    and s2: "mission_offered (heap says_yes 1) = Some sweet_mission"
    and s3: "set (prerequisite_missions sweet_mission) \<subseteq> set (missions_completed (heap says_yes 0))"
    and s4: "\<not> mission_completed (heap says_yes 1)"
    and s5: "current_mission (heap says_yes 0) = None"
    and s6: "\<not> isinstance (heap says_yes 1) BigSmoke"
    and s7: "\<not> is_completed sweet_mission 0 says_yes"
    and s8: "stdin says_yes = [''Yes'']"
    and s9: "lower ''Yes'' = ''yes''"
    by code_simp+
  note ryder = mission_needs_prerequisites [of "new_world quiet" 2 ryder_mission 0, OF r1 r2]
  from conjunct1 [OF ryder] r3 have refused: "interact 2 0 (new_world quiet) = Inr (False, new_world quiet)"
    by (rule mp)
  note sweet = mission_needs_prerequisites [of says_yes 1 sweet_mission 0, OF s1 s2]
  note accept = conjunct1 [OF conjunct2 [OF conjunct2 [OF sweet]], rule_format, of "''Yes''" "[]"]
  have "interact 1 0 says_yes
          = Inr (True, upd 0 (\<lambda>a. a\<lparr>current_mission := Some sweet_mission\<rparr>) (says_yes\<lparr>stdin := []\<rparr>))
        \<and> current_mission
            (heap (upd 0 (\<lambda>a. a\<lparr>current_mission := Some sweet_mission\<rparr>) (says_yes\<lparr>stdin := []\<rparr>)) 0)
           = Some sweet_mission"
    using s3 s4 s5 s6 s7 s8 s9 by (intro accept) simp
  then have "returns (interact 1 0 says_yes) (\<lambda>(interacted, g').
        interacted \<and> current_mission (heap g' 0) = Some sweet_mission \<and> stdin g' = [])"
    by (simp add: returns_def upd_def)
  with r1 r2 r3 refused s1 s2 s5 s8 show ?thesis by blast
qed

text \<open>
  C8. Once an NPC's mission is flagged completed, talking to that NPC (directly or
  through the interact command) changes nothing: no name is appended, no reward is
  paid. And a talk that appends to the player's completed list appends exactly the name
  of the NPC's mission, pays its money reward once, and sets the flag, so that the next
  talk with the same NPC leaves the state as it is.
\<close>

theorem completed_mission_not_repeated:
  "(mission_completed (heap g n) \<longrightarrow>
      talk n p g = Inr g \<and> (isinstance (heap g n) NPC \<longrightarrow> (\<exists>b. interact n p g = Inr (b, g))))
   \<and> (\<forall>g1. talk n p g = Inr g1 \<and> missions_completed (heap g1 p) \<noteq> missions_completed (heap g p)
        \<longrightarrow> (\<exists>m. mission_offered (heap g n) = Some m
                \<and> missions_completed (heap g1 p) = missions_completed (heap g p) @ [mission_name m]
                \<and> money (heap g1 p) = money (heap g p) + reward_money m)
            \<and> mission_completed (heap g1 n) \<and> talk n p g1 = Inr g1)"
proof -
  have first: "talk n p g = Inr g \<and> (isinstance (heap g n) NPC \<longrightarrow> (\<exists>b. interact n p g = Inr (b, g)))"
    if "mission_completed (heap g n)"
    using that talk_completed [of g n p] interact_completed [of g n p] by blast
  have second: "(\<exists>m. mission_offered (heap g n) = Some m
                \<and> missions_completed (heap g1 p) = missions_completed (heap g p) @ [mission_name m]
                \<and> money (heap g1 p) = money (heap g p) + reward_money m)
            \<and> mission_completed (heap g1 n) \<and> talk n p g1 = Inr g1"
    if t: "talk n p g = Inr g1"
      and grew: "missions_completed (heap g1 p) \<noteq> missions_completed (heap g p)" for g1
  proof -
    from talk_completes [OF t grew] obtain m where
      m: "mission_offered (heap g n) = Some m" and g1: "g1 = finish_mission n m p g"
      by blast
    from finish_mission_effect [of n m p g] g1 have
      e: "missions_completed (heap g1 p) = missions_completed (heap g p) @ [mission_name m]"
         "money (heap g1 p) = money (heap g p) + reward_money m"
         "mission_completed (heap g1 n)"
      by simp_all
    from e(3) have "talk n p g1 = Inr g1" by (rule talk_completed)
    with m e show ?thesis by blast
  qed
  from first second show ?thesis by blast
qed


theorem completed_mission_not_repeated_witness:
  "missions_completed (heap holding_pistol 0) = [] \<and> money (heap holding_pistol 0) = 500
   \<and> returns (talk 1 0 holding_pistol) (\<lambda>g1.
        missions_completed (heap g1 0) = [''Sweet's Mission''] \<and> money (heap g1 0) = 600
        \<and> mission_completed (heap g1 1) \<and> talk 1 0 g1 = Inr g1)"
proof -
  have e: "missions_completed (heap holding_pistol 0) = [] \<and> money (heap holding_pistol 0) = 500
     \<and> returns (talk 1 0 holding_pistol) (\<lambda>g1.
          missions_completed (heap g1 0) = [''Sweet's Mission''] \<and> money (heap g1 0) = 600)"
    by code_simp
  then obtain g1 where t: "talk 1 0 holding_pistol = Inr g1"
    and c: "missions_completed (heap g1 0) = [''Sweet's Mission'']"
    and m: "money (heap g1 0) = 600"
    by (cases "talk 1 0 holding_pistol") (simp_all add: returns_def)
  from e c have grew: "missions_completed (heap g1 0) \<noteq> missions_completed (heap holding_pistol 0)"
    by simp
  from completed_mission_not_repeated [of holding_pistol 1 0] t grew
  have "mission_completed (heap g1 1) \<and> talk 1 0 g1 = Inr g1"
    by blast
  with e t c m show ?thesis by (simp add: returns_def)
qed

text \<open>
  C9, as the code has it. For a character whose health is within \<open>[0, max_health]\<close> and an
  amount \<open>a \<ge> 0\<close>, \<^verbatim>\<open>take_damage(a)\<close> leaves the health within \<open>[0, max_health]\<close>, equal to
  \<open>max 0 (old_health - a)\<close>, and returns true exactly when the health is now 0 (the level,
  whatever the health was before).
\<close>

theorem take_damage_level:
  assumes "0 \<le> a" and "0 \<le> health c" and "health c \<le> max_health c"
  shows "0 \<le> health (fst (take_damage a c))
       \<and> health (fst (take_damage a c)) \<le> max_health (fst (take_damage a c))
       \<and> health (fst (take_damage a c)) = max 0 (health c - a)
       \<and> (snd (take_damage a c) \<longleftrightarrow> health (fst (take_damage a c)) = 0)"
  using assms by (simp add: take_damage_def Let_def)

theorem take_damage_level_witness:
  "health (fst (take_damage 15 ((blank Enemy)\<lparr>health := 40, max_health := 40\<rparr>))) = 25
   \<and> \<not> snd (take_damage 15 ((blank Enemy)\<lparr>health := 40, max_health := 40\<rparr>))"
  using take_damage_level [of 15 "(blank Enemy)\<lparr>health := 40, max_health := 40\<rparr>"]
  by (simp add: blank_def)

text \<open>
  C9 as stated fails: a character whose health is already 0 is hit again (a second enemy
  attacking in the same tick), and the call returns true although the old health was not
  positive.
\<close>

theorem take_damage_edge_counterexample:
  "\<not> (snd (take_damage 10 ((blank Player)\<lparr>health := 0, max_health := 100\<rparr>))
      \<longleftrightarrow> health (fst (take_damage 10 ((blank Player)\<lparr>health := 0, max_health := 100\<rparr>))) = 0
          \<and> 0 < health ((blank Player)\<lparr>health := 0, max_health := 100\<rparr>))"
  by (simp add: take_damage_def blank_def)

end
